theory Spec2Isabelle
  imports Complex_Main "HOL-Library.AList"
begin

section \<open>Numbers\<close>

text \<open>
  A TypeScript \<open>number\<close> is an IEEE 754 double.  Two readings are used.  Where the
  program only compares a number with a constant or holds a small integer constant (the
  confidence ladder, the weight tables, the bounds of a search configuration), the number
  is read as the real number it denotes, \<open>number\<close>: such a comparison is the comparison
  of the values, and \<open>NaN\<close> is outside this reading.  Where the program multiplies,
  divides, adds and rounds (the score adjustment and the application of weights), a number
  is a \<open>double\<close>, with the rounding of each operation, the infinities, the two zeros and
  \<open>NaN\<close>.  Counts that the source obtains as a \<open>length\<close> or a \<open>size\<close> are natural
  numbers.
\<close>

type_synonym number = real

subsection \<open>Doubles\<close>

text \<open>
  A double is \<open>NaN\<close>, an infinity, the negative zero, or a finite value \<open>Fin x\<close>, where
  \<open>Fin 0\<close> is the positive zero.  The finite doubles are the reals \<open>m * 2 ^ e\<close> with
  \<open>\<bar>m\<bar> < 2 ^ 53\<close> and \<open>- 1074 \<le> e \<le> 971\<close>; the results of the operations below are
  always of that form.
\<close>

datatype double = NaN | PInf | NInf | NZero | Fin real

text \<open>
  Rounding a real to the nearest double, a tie going to the even significand.
  \<open>bits n\<close> is the length of \<open>n\<close> in binary, \<open>ilog2 a\<close> the exponent \<open>e\<close> with
  \<open>2 ^ e \<le> a < 2 ^ (e + 1)\<close> for a positive \<open>a\<close>, and \<open>ulp a\<close> the distance between the
  doubles around \<open>a\<close>: \<open>2 ^ (e - 52)\<close>, or \<open>2 ^ (- 1074)\<close> in the subnormal range.  A
  magnitude that rounds to \<open>2 ^ 1024\<close> or more overflows to an infinity, one that rounds to
  zero keeps its sign.
\<close>

fun bits :: "nat \<Rightarrow> nat" where
  "bits n = (if n = 0 then 0 else Suc (bits (n div 2)))"

declare bits.simps [simp del]

definition pow2 :: "int \<Rightarrow> real" where
  "pow2 e = (if 0 \<le> e then 2 ^ nat e else 1 / 2 ^ nat (- e))"

definition ilog2_above :: "real \<Rightarrow> int" where
  "ilog2_above a = int (bits (nat \<lfloor>a\<rfloor>)) - 1"

definition ilog2_below :: "real \<Rightarrow> int \<Rightarrow> int" where
  "ilog2_below y f = (if y = pow2 f then - f else - f - 1)"

definition ilog2 :: "real \<Rightarrow> int" where
  "ilog2 a = (if 1 \<le> a then ilog2_above a else ilog2_below (1 / a) (ilog2_above (1 / a)))"

definition nearest_even :: "int \<Rightarrow> real \<Rightarrow> int" where
  "nearest_even f d =
    (if d < 1 / 2 then f else if 1 / 2 < d then f + 1 else if even f then f else f + 1)"

definition round_half_even :: "real \<Rightarrow> int" where
  "round_half_even y = nearest_even \<lfloor>y\<rfloor> (y - of_int \<lfloor>y\<rfloor>)"

definition ulp :: "real \<Rightarrow> real" where
  "ulp a = pow2 (max (ilog2 a) (- 1022) - 52)"

definition on_grid :: "real \<Rightarrow> real \<Rightarrow> real" where
  "on_grid a u = of_int (round_half_even (a / u)) * u"

definition signed :: "bool \<Rightarrow> real \<Rightarrow> double" where
  "signed negative r =
    (if pow2 1024 \<le> r then (if negative then NInf else PInf)
     else if r = 0 then (if negative then NZero else Fin 0)
     else Fin (if negative then - r else r))"

definition round64 :: "real \<Rightarrow> double" where
  "round64 x = (if x = 0 then Fin 0 else signed (x < 0) (on_grid \<bar>x\<bar> (ulp \<bar>x\<bar>)))"

text \<open>
  The parts of a double: the value of a zero or finite double, the sign, and the zero and
  the infinity of a given sign.
\<close>

definition finite_value :: "double \<Rightarrow> real" where
  "finite_value d = (case d of Fin x \<Rightarrow> x | _ \<Rightarrow> 0)"

definition is_negative :: "double \<Rightarrow> bool" where
  "is_negative d = (case d of NInf \<Rightarrow> True | NZero \<Rightarrow> True | Fin x \<Rightarrow> x < 0 | _ \<Rightarrow> False)"

definition is_zero :: "double \<Rightarrow> bool" where
  "is_zero d = (d = NZero \<or> d = Fin 0)"

definition is_infinite :: "double \<Rightarrow> bool" where
  "is_infinite d = (d = PInf \<or> d = NInf)"

definition zero_of :: "bool \<Rightarrow> double" where
  "zero_of negative = (if negative then NZero else Fin 0)"

definition infinity_of :: "bool \<Rightarrow> double" where
  "infinity_of negative = (if negative then NInf else PInf)"

text \<open>
  The operators \<open>*\<close>, \<open>+\<close> and \<open>/\<close> of JavaScript on numbers: the exact result, rounded.
  A zero result of an addition is negative only when both operands are the negative
  zero.
\<close>

definition js_mul :: "double \<Rightarrow> double \<Rightarrow> double" where
  "js_mul a b =
    (if a = NaN \<or> b = NaN then NaN
     else if is_infinite a \<or> is_infinite b then
       (if is_zero a \<or> is_zero b then NaN else infinity_of (is_negative a \<noteq> is_negative b))
     else if is_zero a \<or> is_zero b then zero_of (is_negative a \<noteq> is_negative b)
     else round64 (finite_value a * finite_value b))"

definition js_add :: "double \<Rightarrow> double \<Rightarrow> double" where
  "js_add a b =
    (if a = NaN \<or> b = NaN then NaN
     else if is_infinite a then (if is_infinite b \<and> a \<noteq> b then NaN else a)
     else if is_infinite b then b
     else if finite_value a + finite_value b = 0 then
       (if a = NZero \<and> b = NZero then NZero else Fin 0)
     else round64 (finite_value a + finite_value b))"

definition js_div :: "double \<Rightarrow> double \<Rightarrow> double" where
  "js_div a b =
    (if a = NaN \<or> b = NaN then NaN
     else if is_infinite a then
       (if is_infinite b then NaN else infinity_of (is_negative a \<noteq> is_negative b))
     else if is_infinite b then zero_of (is_negative a \<noteq> is_negative b)
     else if is_zero b then
       (if is_zero a then NaN else infinity_of (is_negative a \<noteq> is_negative b))
     else if is_zero a then zero_of (is_negative a \<noteq> is_negative b)
     else round64 (finite_value a / finite_value b))"

text \<open>
  \<open>Math.round\<close>: the nearest integer, a tie going up; the result is the negative zero for
  a negative argument that rounds to zero.  \<open>Math.max\<close> and \<open>Math.min\<close> of two arguments:
  \<open>NaN\<close> when either is \<open>NaN\<close>, and the positive zero is the larger of the two zeros.
\<close>

definition integer_of :: "real \<Rightarrow> int \<Rightarrow> double" where
  "integer_of x r = (if r = 0 \<and> x < 0 then NZero else Fin (of_int r))"

definition Math_round :: "double \<Rightarrow> double" where
  "Math_round d = (case d of Fin x \<Rightarrow> integer_of x \<lfloor>x + 1 / 2\<rfloor> | _ \<Rightarrow> d)"

definition double_less :: "double \<Rightarrow> double \<Rightarrow> bool" where
  "double_less a b =
    (a \<noteq> b \<and>
     (a = NInf \<or> b = PInf
      \<or> (\<not> is_infinite a \<and> \<not> is_infinite b
          \<and> (finite_value a < finite_value b \<or> (a = NZero \<and> b = Fin 0)))))"

definition Math_max :: "double \<Rightarrow> double \<Rightarrow> double" where
  "Math_max a b = (if a = NaN \<or> b = NaN then NaN else if double_less a b then b else a)"

definition Math_min :: "double \<Rightarrow> double \<Rightarrow> double" where
  "Math_min a b = (if a = NaN \<or> b = NaN then NaN else if double_less b a then b else a)"

text \<open>
  A value that a property read can give where a number is expected: a number, a member
  that every object inherits from \<open>Object.prototype\<close> (a function, or the prototype
  itself), or \<open>undefined\<close>.  \<open>ToNumber\<close> is the conversion that \<open>*\<close> applies to it.
\<close>

datatype jsvalue = Number double | Member string | Undefined

definition ToNumber :: "jsvalue \<Rightarrow> double" where
  "ToNumber v = (case v of Number d \<Rightarrow> d | Member name \<Rightarrow> NaN | Undefined \<Rightarrow> NaN)"

definition object_prototype_members :: "string list" where
  "object_prototype_members =
    [''constructor'', ''hasOwnProperty'', ''isPrototypeOf'', ''propertyIsEnumerable'',
     ''toLocaleString'', ''toString'', ''valueOf'', ''__proto__'', ''__defineGetter__'',
     ''__defineSetter__'', ''__lookupGetter__'', ''__lookupSetter__'']"

section \<open>Text\<close>

text \<open>
  A JavaScript string is a sequence of UTF-16 code units.  The resume text and the
  strings of the parsed resume are lists of code units; the string literals of the source
  are ASCII and are written as Isabelle strings, \<open>js\<close> giving their code units.
\<close>

type_synonym code_unit = nat
type_synonym jsstring = "code_unit list"

definition js :: "string \<Rightarrow> jsstring" where
  "js s = map of_char s"

text \<open>
  The white space of JavaScript, which is what the class \<open>\s\<close> matches and what \<open>trim\<close>
  removes: tab to carriage return, space, no-break space, the Unicode space separators,
  the line and paragraph separators and the byte order mark.
\<close>

definition is_space :: "code_unit \<Rightarrow> bool" where
  "is_space c =
    ((9 \<le> c \<and> c \<le> 13) \<or> c = 32 \<or> c = 160 \<or> c = 5760 \<or> (8192 \<le> c \<and> c \<le> 8202)
     \<or> c = 8232 \<or> c = 8233 \<or> c = 8239 \<or> c = 8287 \<or> c = 12288 \<or> c = 65279)"

text \<open>The class \<open>\w\<close>: digits, ASCII letters and the underscore.\<close>

definition is_word :: "code_unit \<Rightarrow> bool" where
  "is_word c = ((48 \<le> c \<and> c \<le> 57) \<or> (65 \<le> c \<and> c \<le> 90) \<or> c = 95 \<or> (97 \<le> c \<and> c \<le> 122))"

definition is_line_terminator :: "code_unit \<Rightarrow> bool" where
  "is_line_terminator c = (c = 10 \<or> c = 13 \<or> c = 8232 \<or> c = 8233)"

text \<open>
  Letter case.  The case tables are those of the code units up to 255 (ASCII and
  Latin-1, where a letter and its other case are 32 apart); code units above 255 are left
  as they are, the Unicode tables of the run time not being part of the program.  The
  patterns and the vocabulary of the source hold ASCII letters only, and an ASCII letter
  is the other case of an ASCII letter only.
\<close>

definition lower_unit :: "code_unit \<Rightarrow> code_unit" where
  "lower_unit c =
    (if (65 \<le> c \<and> c \<le> 90) \<or> (192 \<le> c \<and> c \<le> 222 \<and> c \<noteq> 215) then c + 32 else c)"

definition upper_unit :: "code_unit \<Rightarrow> code_unit" where
  "upper_unit c =
    (if (97 \<le> c \<and> c \<le> 122) \<or> (224 \<le> c \<and> c \<le> 254 \<and> c \<noteq> 247) then c - 32 else c)"

definition toLowerCase :: "jsstring \<Rightarrow> jsstring" where
  "toLowerCase s = map lower_unit s"

text \<open>\<open>s.includes(sub)\<close>: \<open>sub\<close> occurs in \<open>s\<close> at some index.\<close>

fun starts_with :: "jsstring \<Rightarrow> jsstring \<Rightarrow> bool" where
  "starts_with s [] = True"
| "starts_with [] (p # ps) = False"
| "starts_with (c # cs) (p # ps) = (c = p \<and> starts_with cs ps)"

fun includes_str :: "jsstring \<Rightarrow> jsstring \<Rightarrow> bool" where
  "includes_str [] sub = starts_with [] sub"
| "includes_str (c # cs) sub = (if starts_with (c # cs) sub then True else includes_str cs sub)"

text \<open>\<open>s.trim()\<close> removes the white space at both ends.\<close>

fun trimEnd :: "jsstring \<Rightarrow> jsstring" where
  "trimEnd [] = []"
| "trimEnd (c # cs) =
    (let r = trimEnd cs in if r = [] \<and> is_space c then [] else c # r)"

definition trim :: "jsstring \<Rightarrow> jsstring" where
  "trim s = trimEnd (dropWhile is_space s)"

text \<open>
  \<open>s.split(/\s+/)\<close>: the pieces of \<open>s\<close> between the maximal runs of white space.  The first
  argument collects the piece being read, in reverse; the empty string splits into one
  empty piece, and white space at either end gives an empty piece there.
\<close>

function split_spaces :: "jsstring \<Rightarrow> jsstring \<Rightarrow> jsstring list" where
  "split_spaces cur [] = [rev cur]"
| "split_spaces cur (c # cs) =
    (if is_space c then rev cur # split_spaces [] (dropWhile is_space cs)
     else split_spaces (c # cur) cs)"
  by pat_completeness auto
termination
  by (relation "measure (\<lambda>(cur, s). length s)")
     (auto simp: less_Suc_eq_le length_dropWhile_le)

subsection \<open>Regular expressions\<close>

text \<open>
  The patterns of the source use literals, character classes, sequence, alternative,
  \<open>?\<close>, \<open>*\<close>, \<open>+\<close>, \<open>{m,n}\<close>, the word boundary \<open>\b\<close> and, under the flag \<open>m\<close>, the start of a
  line \<open>^\<close>.  An \<open>atom\<close> is a member of a character class: a character, a range of
  characters, a code unit given by its number, \<open>\s\<close> or \<open>\w\<close>.
\<close>

datatype atom = Ch char | Range char char | Unit code_unit | Space | Word

datatype regex =
    Lit string
  | OneOf "atom list"
  | Seq regex regex
  | Alt regex regex
  | Opt regex
  | Star regex
  | Repeat regex nat nat
  | WordBoundary
  | LineStart

text \<open>
  A position in the text: the code unit before it, if any, and the text from it on.
  \<open>matches r ignoreCase pos\<close> lists the positions at which a match of \<open>r\<close> that starts at
  \<open>pos\<close> can end, in the order in which the backtracking matcher of JavaScript tries them
  (the first alternative first, a greedy quantifier taking as many iterations as it can
  first).  The head of the list is the match that JavaScript reports; the list is empty
  when there is no match at \<open>pos\<close>.
\<close>

type_synonym position = "code_unit option \<times> jsstring"

fun in_atom :: "atom \<Rightarrow> code_unit \<Rightarrow> bool" where
  "in_atom (Ch p) c = (c = of_char p)"
| "in_atom (Range lo hi) c = (of_char lo \<le> c \<and> c \<le> of_char hi)"
| "in_atom (Unit u) c = (c = u)"
| "in_atom Space c = is_space c"
| "in_atom Word c = is_word c"

text \<open>Under the flag \<open>i\<close> a code unit also matches through its other case.\<close>

definition atom_match :: "bool \<Rightarrow> atom \<Rightarrow> code_unit \<Rightarrow> bool" where
  "atom_match ignoreCase a c =
    (in_atom a c \<or> (ignoreCase \<and> (in_atom a (upper_unit c) \<or> in_atom a (lower_unit c))))"

fun lit :: "bool \<Rightarrow> string \<Rightarrow> position \<Rightarrow> position list" where
  "lit ignoreCase [] pos = [pos]"
| "lit ignoreCase (p # ps) (prev, []) = []"
| "lit ignoreCase (p # ps) (prev, c # cs) =
    (if atom_match ignoreCase (Ch p) c then lit ignoreCase ps (Some c, cs) else [])"

text \<open>
  An iteration of a quantifier that is not required and consumes nothing is rejected, as
  in JavaScript.  \<open>star n f\<close> is at most \<open>n\<close> greedy iterations of \<open>f\<close>; since every iteration
  consumes a code unit, the length of the remaining text is a bound that is never
  reached early.  \<open>times n f\<close> is exactly \<open>n\<close> iterations.
\<close>

definition progress :: "position \<Rightarrow> position \<Rightarrow> bool" where
  "progress pos pos' = (length (snd pos') < length (snd pos))"

primrec star :: "nat \<Rightarrow> (position \<Rightarrow> position list) \<Rightarrow> position \<Rightarrow> position list" where
  "star 0 f pos = [pos]"
| "star (Suc n) f pos = concat (map (star n f) (filter (progress pos) (f pos))) @ [pos]"

primrec times :: "nat \<Rightarrow> (position \<Rightarrow> position list) \<Rightarrow> position \<Rightarrow> position list" where
  "times 0 f pos = [pos]"
| "times (Suc n) f pos = concat (map (times n f) (f pos))"

definition word_before :: "position \<Rightarrow> bool" where
  "word_before pos = (case fst pos of None \<Rightarrow> False | Some c \<Rightarrow> is_word c)"

definition word_after :: "position \<Rightarrow> bool" where
  "word_after pos = (case snd pos of [] \<Rightarrow> False | c # cs \<Rightarrow> is_word c)"

primrec matches :: "regex \<Rightarrow> bool \<Rightarrow> position \<Rightarrow> position list" where
  "matches (Lit s) ignoreCase pos = lit ignoreCase s pos"
| "matches (OneOf as) ignoreCase pos =
    (case snd pos of
       [] \<Rightarrow> []
     | c # cs \<Rightarrow> if list_ex (\<lambda>a. atom_match ignoreCase a c) as then [(Some c, cs)] else [])"
| "matches (Seq r1 r2) ignoreCase pos =
    concat (map (matches r2 ignoreCase) (matches r1 ignoreCase pos))"
| "matches (Alt r1 r2) ignoreCase pos = matches r1 ignoreCase pos @ matches r2 ignoreCase pos"
| "matches (Opt r) ignoreCase pos = filter (progress pos) (matches r ignoreCase pos) @ [pos]"
| "matches (Star r) ignoreCase pos = star (length (snd pos)) (matches r ignoreCase) pos"
| "matches (Repeat r lo hi) ignoreCase pos =
    concat (map (star (hi - lo) (matches r ignoreCase)) (times lo (matches r ignoreCase) pos))"
| "matches WordBoundary ignoreCase pos = (if word_before pos \<noteq> word_after pos then [pos] else [])"
| "matches LineStart ignoreCase pos =
    (case fst pos of None \<Rightarrow> [pos] | Some c \<Rightarrow> if is_line_terminator c then [pos] else [])"

text \<open>\<open>pattern.test(text)\<close>: there is a match that starts at some index of the text.\<close>

fun search :: "regex \<Rightarrow> bool \<Rightarrow> code_unit option \<Rightarrow> jsstring \<Rightarrow> bool" where
  "search r ignoreCase prev [] = (matches r ignoreCase (prev, []) \<noteq> [])"
| "search r ignoreCase prev (c # cs) =
    (if matches r ignoreCase (prev, c # cs) \<noteq> [] then True
     else search r ignoreCase (Some c) cs)"

definition test :: "regex \<Rightarrow> bool \<Rightarrow> jsstring \<Rightarrow> bool" where
  "test r ignoreCase text = search r ignoreCase None text"

text \<open>
  The number of matches that \<open>text.match(pattern)\<close> returns under the flag \<open>g\<close>: the
  leftmost match is taken, and the search goes on where it ended, or one code unit
  further when the match was empty.
\<close>

function match_all :: "regex \<Rightarrow> bool \<Rightarrow> code_unit option \<Rightarrow> jsstring \<Rightarrow> nat" where
  "match_all r ignoreCase prev rest =
    (case matches r ignoreCase (prev, rest) of
       [] \<Rightarrow> (case rest of [] \<Rightarrow> 0 | c # cs \<Rightarrow> match_all r ignoreCase (Some c) cs)
     | (prev', rest') # _ \<Rightarrow>
         Suc (if length rest' < length rest then match_all r ignoreCase prev' rest'
              else (case rest of [] \<Rightarrow> 0 | c # cs \<Rightarrow> match_all r ignoreCase (Some c) cs)))"
  by pat_completeness auto
termination
  by (relation "measure (\<lambda>(r, i, p, rest). length rest)") auto

text \<open>
  Shorthands for writing the patterns of the source: a sequence, an alternative
  \<open>(a|b|c)\<close>, \<open>r+\<close>, \<open>\s*\<close>, and \<open>\b(a|b|c)\b\<close>.
\<close>

definition seqs :: "regex list \<Rightarrow> regex" where
  "seqs rs = foldr Seq rs (Lit [])"

definition alts :: "regex list \<Rightarrow> regex" where
  "alts rs = (case rs of [] \<Rightarrow> OneOf [] | _ \<Rightarrow> foldr Alt (butlast rs) (last rs))"

definition one_or_more :: "regex \<Rightarrow> regex" where
  "one_or_more r = Seq r (Star r)"

definition spaces :: regex where
  "spaces = Star (OneOf [Space])"

definition whole_word :: "regex list \<Rightarrow> regex" where
  "whole_word rs = seqs [WordBoundary, alts rs, WordBoundary]"

section \<open>Resume data\<close>

text \<open>
  Modelled from the spec: the declaration of \<open>ResumeData\<close> (module \<open>../types/resume\<close>) is
  missing from the sources.  The spec describes it as the structured parse result: skills
  categories with skill lists, education entries, work-experience entries with bullets,
  project entries with bullets.  The scoring code reads these four arrays, each of which
  may be absent, as may the \<open>list\<close> of a category and the \<open>bullets\<close> of an entry; of the
  education entries it only takes the number, so their type is a parameter.  Work
  experience and project entries are read through \<open>bullets\<close> alone and share one record.
\<close>

record SkillCategory =
  list :: "jsstring list option"

record BulletedEntry =
  bullets :: "jsstring list option"

record 'e ResumeData =
  skills :: "SkillCategory list option"
  education :: "'e list option"
  workExperience :: "BulletedEntry list option"
  projects :: "BulletedEntry list option"

record 'e NormalModeInput =
  resumeText :: jsstring
  resumeData :: "'e ResumeData option"
  userType :: "string option"

section \<open>Normal mode scoring: types\<close>

text \<open>
  Modelled from the spec: the declaration of \<open>CandidateLevel\<close> (module
  \<open>./resumeScoringFixes\<close>) is missing from the sources.  The spec names the levels fresher,
  junior, mid and senior, and a default for any unrecognized level; at run time a level is
  a string, compared against the literals \<open>'fresher'\<close>, \<open>'junior'\<close>, \<open>'mid'\<close> and \<open>'senior'\<close>.
\<close>

type_synonym CandidateLevel = string

datatype quality_label = excellent | good | fair | poor | invalid

datatype ConfidenceLevel = High | Medium | Low

record ContentMetrics =
  wordCount :: nat
  sectionCount :: nat
  hasContactInfo :: bool
  hasSkills :: bool
  hasEducation :: bool
  hasExperience :: bool
  hasProjects :: bool
  bulletCount :: nat
  uniqueSkillCount :: nat

record InputQualityAssessment =
  isValid :: bool
  quality :: quality_label
  qualityScore :: nat
  issues :: "string list"
  contentMetrics :: ContentMetrics

record NormalizedWeights =
  skills_keywords :: number
  experience :: number
  education :: number
  projects :: number
  certifications :: number
  basic_structure :: number
  content_structure :: number
  competitive :: number
  culture_fit :: number
  qualitative :: number

record ScoreAdjustment =
  baseScore :: double
  qualityMultiplier :: double
  candidateLevelBonus :: double
  finalScore :: double
  explanation :: string

text \<open>
  Modelled from the spec: the declaration of \<open>TierScores\<close> (module \<open>../types/resume\<close>) is
  missing from the sources.  The spec describes it as a map from tier name to a record
  with \<open>percentage\<close>, \<open>weight\<close> and further fields.  The scoring code reads \<open>percentage\<close> and
  \<open>weight\<close> and writes \<open>weight\<close> and \<open>weighted_contribution\<close>; whatever else a tier record
  holds is the extension part of the record below.  The weight is declared a number; the
  code can store a value there that it read from the weight table by the name of the
  tier, so the field holds a \<open>jsvalue\<close>.  An object is the list of its own enumerable
  properties in the order in which \<open>Object.entries\<close> lists them; its keys are distinct.
\<close>

record TierScore =
  percentage :: double
  weight :: jsvalue
  weighted_contribution :: double

type_synonym 'a TierScores = "(string \<times> 'a TierScore_scheme) list"

section \<open>Input quality assessment\<close>

subsection \<open>Helper functions\<close>

definition sectionPatterns :: "regex list" where
  "sectionPatterns =
     [whole_word [Lit ''EXPERIENCE'', seqs [Lit ''WORK'', spaces, Lit ''EXPERIENCE''],
                  Lit ''EMPLOYMENT'',
                  seqs [Lit ''PROFESSIONAL'', spaces, Lit ''EXPERIENCE'']],
      whole_word [Lit ''EDUCATION'', Lit ''ACADEMIC'', Lit ''QUALIFICATIONS''],
      whole_word [Lit ''SKILLS'', seqs [Lit ''TECHNICAL'', spaces, Lit ''SKILLS''],
                  seqs [Lit ''CORE'', spaces, Lit ''COMPETENCIES'']],
      whole_word [Lit ''PROJECTS'', seqs [Lit ''PERSONAL'', spaces, Lit ''PROJECTS''],
                  seqs [Lit ''ACADEMIC'', spaces, Lit ''PROJECTS'']],
      whole_word [seqs [Lit ''CERTIFICATION'', Opt (Lit ''S'')],
                  seqs [Lit ''CERTIFICATE'', Opt (Lit ''S'')],
                  seqs [Lit ''LICENSE'', Opt (Lit ''S'')]],
      whole_word [Lit ''SUMMARY'', Lit ''OBJECTIVE'', Lit ''PROFILE'',
                  seqs [Lit ''ABOUT'', spaces, Lit ''ME'']],
      whole_word [seqs [Lit ''ACHIEVEMENT'', Opt (Lit ''S'')],
                  seqs [Lit ''AWARD'', Opt (Lit ''S'')],
                  seqs [Lit ''HONOR'', Opt (Lit ''S'')]],
      whole_word [seqs [Lit ''PUBLICATION'', Opt (Lit ''S'')], Lit ''RESEARCH''],
      whole_word [seqs [Lit ''LANGUAGE'', Opt (Lit ''S'')],
                  seqs [Lit ''INTEREST'', Opt (Lit ''S'')],
                  seqs [Lit ''HOBBIE'', Opt (Lit ''S'')]]]"

definition countSections :: "jsstring \<Rightarrow> nat" where
  "countSections text =
    length (filter (\<lambda>pattern. test pattern True text) sectionPatterns)"

definition checkContactInfo :: "jsstring \<Rightarrow> bool" where
  "checkContactInfo text =
    (let hasEmail =
           test (seqs [one_or_more (OneOf [Word, Ch CHR ''.'', Ch CHR ''-'']), Lit ''@'',
                       one_or_more (OneOf [Word, Ch CHR ''.'', Ch CHR ''-'']), Lit ''.'',
                       one_or_more (OneOf [Word])]) False text;
         hasPhone =
           test (seqs [Opt (OneOf [Ch CHR ''+'']), Opt (OneOf [Ch CHR ''('']),
                       Repeat (OneOf [Range CHR ''0'' CHR ''9'']) 1 3,
                       Opt (OneOf [Ch CHR '')'']),
                       Opt (OneOf [Ch CHR ''-'', Space, Ch CHR ''.'']),
                       Opt (OneOf [Ch CHR ''('']),
                       Repeat (OneOf [Range CHR ''0'' CHR ''9'']) 1 4,
                       Opt (OneOf [Ch CHR '')'']),
                       Opt (OneOf [Ch CHR ''-'', Space, Ch CHR ''.'']),
                       Repeat (OneOf [Range CHR ''0'' CHR ''9'']) 1 4,
                       Opt (OneOf [Ch CHR ''-'', Space, Ch CHR ''.'']),
                       Repeat (OneOf [Range CHR ''0'' CHR ''9'']) 1 9]) False text
     in hasEmail \<or> hasPhone)"

definition checkSkillsPresence :: "jsstring \<Rightarrow> 'e ResumeData option \<Rightarrow> bool" where
  "checkSkillsPresence text resumeData' =
    (case Option.bind resumeData' skills of
       Some (s # ss) \<Rightarrow>
         list_ex (\<lambda>s. case list s of Some (x # xs) \<Rightarrow> True | _ \<Rightarrow> False) (s # ss)
     | _ \<Rightarrow>
         (let hasSkillsSection =
                test (whole_word [Lit ''SKILLS'',
                                  seqs [Lit ''TECHNICAL'', spaces, Lit ''SKILLS''],
                                  seqs [Lit ''CORE'', spaces, Lit ''COMPETENCIES'']])
                     True text;
              hasTechKeywords =
                test (whole_word [Lit ''javascript'', Lit ''python'', Lit ''java'',
                                  Lit ''react'', Lit ''node'', Lit ''sql'', Lit ''aws'',
                                  Lit ''docker'', Lit ''git''])
                     True text
          in hasSkillsSection \<or> hasTechKeywords))"

definition checkEducationPresence :: "jsstring \<Rightarrow> 'e ResumeData option \<Rightarrow> bool" where
  "checkEducationPresence text resumeData' =
    (case Option.bind resumeData' ResumeData.education of
       Some (e # es) \<Rightarrow> True
     | _ \<Rightarrow>
         (let hasEducationSection =
                test (whole_word [Lit ''EDUCATION'', Lit ''ACADEMIC'', Lit ''QUALIFICATIONS''])
                     True text;
              hasDegree =
                test (whole_word
                        [Lit ''bachelor'', Lit ''master'',
                         seqs [Lit ''b'', Opt (Lit ''.''), Lit ''s'', Opt (Lit ''.'')],
                         seqs [Lit ''m'', Opt (Lit ''.''), Lit ''s'', Opt (Lit ''.'')],
                         seqs [Lit ''b'', Opt (Lit ''.''), Lit ''e'', Opt (Lit ''.'')],
                         seqs [Lit ''m'', Opt (Lit ''.''), Lit ''e'', Opt (Lit ''.'')],
                         seqs [Lit ''b'', Opt (Lit ''.''), Lit ''tech''],
                         seqs [Lit ''m'', Opt (Lit ''.''), Lit ''tech''],
                         Lit ''mba'', Lit ''phd''])
                     True text
          in hasEducationSection \<or> hasDegree))"

definition checkExperiencePresence :: "jsstring \<Rightarrow> 'e ResumeData option \<Rightarrow> bool" where
  "checkExperiencePresence text resumeData' =
    (case Option.bind resumeData' workExperience of
       Some (e # es) \<Rightarrow>
         list_ex (\<lambda>exp. case bullets exp of Some (b # bs) \<Rightarrow> True | _ \<Rightarrow> False) (e # es)
     | _ \<Rightarrow>
         (let hasExperienceSection =
                test (whole_word [Lit ''EXPERIENCE'',
                                  seqs [Lit ''WORK'', spaces, Lit ''EXPERIENCE''],
                                  Lit ''EMPLOYMENT''])
                     True text;
              hasJobIndicators =
                test (whole_word [Lit ''worked'', Lit ''developed'', Lit ''managed'',
                                  Lit ''led'', Lit ''created'', Lit ''implemented'',
                                  Lit ''designed''])
                     True text
          in hasExperienceSection \<and> hasJobIndicators))"

definition checkProjectsPresence :: "jsstring \<Rightarrow> 'e ResumeData option \<Rightarrow> bool" where
  "checkProjectsPresence text resumeData' =
    (case Option.bind resumeData' ResumeData.projects of
       Some (p # ps) \<Rightarrow>
         list_ex (\<lambda>p. case bullets p of Some (b # bs) \<Rightarrow> True | _ \<Rightarrow> False) (p # ps)
     | _ \<Rightarrow>
         (let hasProjectsSection =
                test (whole_word [Lit ''PROJECTS'',
                                  seqs [Lit ''PERSONAL'', spaces, Lit ''PROJECTS''],
                                  seqs [Lit ''ACADEMIC'', spaces, Lit ''PROJECTS'']])
                     True text
          in hasProjectsSection))"

text \<open>\<open>entry.bullets?.length || 0\<close>.\<close>

definition bullets_length :: "BulletedEntry \<Rightarrow> nat" where
  "bullets_length entry = (case bullets entry of None \<Rightarrow> 0 | Some bs \<Rightarrow> length bs)"

definition countBulletPoints :: "jsstring \<Rightarrow> 'e ResumeData option \<Rightarrow> nat" where
  "countBulletPoints text resumeData' =
    (let count0 = 0;
         count1 =
           (case Option.bind resumeData' workExperience of
              Some entries \<Rightarrow> count0 + foldl (\<lambda>sum exp. sum + bullets_length exp) 0 entries
            | None \<Rightarrow> count0);
         count2 =
           (case Option.bind resumeData' ResumeData.projects of
              Some entries \<Rightarrow> count1 + foldl (\<lambda>sum proj. sum + bullets_length proj) 0 entries
            | None \<Rightarrow> count1);
         textBullets =
           match_all (seqs [LineStart, Star (OneOf [Space]),
                            OneOf [Unit 8226, Ch CHR ''-'', Ch CHR ''*''], OneOf [Space]])
                     False None text
     in max count2 textBullets)"

text \<open>
  The \<open>Set\<close> of skills is a list without repetition: \<open>add\<close> is \<open>List.insert\<close>, \<open>size\<close> is
  the length.
\<close>

definition countUniqueSkills :: "jsstring \<Rightarrow> 'e ResumeData option \<Rightarrow> nat" where
  "countUniqueSkills text resumeData' =
    (let skills0 = [];
         skills1 =
           (case Option.bind resumeData' skills of
              Some categories \<Rightarrow>
                fold (\<lambda>category acc.
                        case list category of
                          Some l \<Rightarrow> fold (\<lambda>skill acc. List.insert (toLowerCase skill) acc) l acc
                        | None \<Rightarrow> acc)
                     categories skills0
            | None \<Rightarrow> skills0);
         techSkills = map js
           [''javascript'', ''typescript'', ''python'', ''java'', ''c++'', ''c#'', ''go'',
            ''rust'', ''ruby'', ''php'',
            ''react'', ''angular'', ''vue'', ''node'', ''express'', ''django'', ''flask'',
            ''spring'',
            ''mysql'', ''postgresql'', ''mongodb'', ''redis'', ''elasticsearch'',
            ''aws'', ''azure'', ''gcp'', ''docker'', ''kubernetes'', ''terraform'',
            ''git'', ''jira'', ''agile'', ''scrum'', ''rest'', ''graphql'', ''api'',
            ''html'', ''css'', ''sass'', ''tailwind'', ''bootstrap'',
            ''machine learning'', ''tensorflow'', ''pytorch'', ''pandas'', ''numpy'',
            ''tableau'', ''power bi'', ''excel'', ''sql''];
         textLower = toLowerCase text;
         skills2 =
           fold (\<lambda>skill acc. if includes_str textLower skill then List.insert skill acc else acc)
                techSkills skills1
     in length skills2)"

subsection \<open>Assessment\<close>

definition assessInputQuality :: "'e NormalModeInput \<Rightarrow> InputQualityAssessment" where
  "assessInputQuality input =
    (let resumeText' = resumeText input;
         resumeData' = resumeData input;
         wordCount' = length (filter (\<lambda>w. length w > 0) (split_spaces [] (trim resumeText')));
         sectionCount' = countSections resumeText';
         hasContactInfo' = checkContactInfo resumeText';
         hasSkills' = checkSkillsPresence resumeText' resumeData';
         hasEducation' = checkEducationPresence resumeText' resumeData';
         hasExperience' = checkExperiencePresence resumeText' resumeData';
         hasProjects' = checkProjectsPresence resumeText' resumeData';
         bulletCount' = countBulletPoints resumeText' resumeData';
         uniqueSkillCount' = countUniqueSkills resumeText' resumeData';
         contentMetrics' =
           \<lparr>wordCount = wordCount', sectionCount = sectionCount',
            hasContactInfo = hasContactInfo', hasSkills = hasSkills',
            hasEducation = hasEducation', hasExperience = hasExperience',
            hasProjects = hasProjects', bulletCount = bulletCount',
            uniqueSkillCount = uniqueSkillCount'\<rparr>;
         issues' =
           (if wordCount' < 50 then [''Resume text too short (< 50 words)''] else [])
           @ (if wordCount' < 100 then [''Resume appears incomplete''] else [])
           @ (if \<not> hasContactInfo' then [''Missing contact information''] else [])
           @ (if \<not> hasSkills' \<and> \<not> hasExperience' \<and> \<not> hasProjects'
              then [''No substantive content detected''] else [])
           @ (if sectionCount' < 2 then [''Missing standard resume sections''] else []);
         qualityScore0 = 0;
         qualityScore1 = qualityScore0 +
           (if wordCount' \<ge> 400 then 20
            else if wordCount' \<ge> 200 then 15
            else if wordCount' \<ge> 100 then 10
            else if wordCount' \<ge> 50 then 5
            else 0);
         qualityScore2 = qualityScore1 + (if hasContactInfo' then 5 else 0);
         qualityScore3 = qualityScore2 + (if hasSkills' then 8 else 0);
         qualityScore4 = qualityScore3 + (if hasEducation' then 5 else 0);
         qualityScore5 = qualityScore4 + (if hasExperience' then 7 else 0);
         qualityScore6 = qualityScore5 + (if hasProjects' then 5 else 0);
         qualityScore7 = qualityScore6 +
           (if bulletCount' \<ge> 10 then 15
            else if bulletCount' \<ge> 5 then 10
            else if bulletCount' \<ge> 2 then 5
            else 0);
         qualityScore8 = qualityScore7 +
           (if uniqueSkillCount' \<ge> 10 then 15
            else if uniqueSkillCount' \<ge> 5 then 10
            else if uniqueSkillCount' \<ge> 2 then 5
            else 0);
         qualityScore' = qualityScore8 +
           (if sectionCount' \<ge> 5 then 20
            else if sectionCount' \<ge> 3 then 15
            else if sectionCount' \<ge> 2 then 10
            else if sectionCount' \<ge> 1 then 5
            else 0);
         (quality', isValid') =
           (if qualityScore' \<ge> 80 then (excellent, True)
            else if qualityScore' \<ge> 60 then (good, True)
            else if qualityScore' \<ge> 40 then (fair, True)
            else if qualityScore' \<ge> 20 then (poor, True)
            else (invalid, False))
     in \<lparr>isValid = isValid',
         quality = quality',
         qualityScore = qualityScore',
         issues = issues',
         contentMetrics = contentMetrics'\<rparr>)"


section \<open>Candidate level normalization\<close>

definition getNormalizedWeights :: "CandidateLevel \<Rightarrow> NormalizedWeights" where
  "getNormalizedWeights candidateLevel =
    (if candidateLevel = ''fresher'' then
       \<lparr>skills_keywords = 35, experience = 0, education = 18, projects = 20,
        certifications = 8, basic_structure = 6, content_structure = 6,
        competitive = 3, culture_fit = 2, qualitative = 2\<rparr>
     else if candidateLevel = ''junior'' then
       \<lparr>skills_keywords = 30, experience = 12, education = 12, projects = 16,
        certifications = 6, basic_structure = 7, content_structure = 8,
        competitive = 4, culture_fit = 3, qualitative = 2\<rparr>
     else if candidateLevel = ''mid'' then
       \<lparr>skills_keywords = 25, experience = 25, education = 6, projects = 10,
        certifications = 5, basic_structure = 8, content_structure = 10,
        competitive = 5, culture_fit = 3, qualitative = 3\<rparr>
     else
       \<lparr>skills_keywords = 22, experience = 30, education = 4, projects = 8,
        certifications = 4, basic_structure = 8, content_structure = 10,
        competitive = 7, culture_fit = 4, qualitative = 3\<rparr>)"

text \<open>
  \<open>weights[tierKey]\<close>: the property of the weight table with the given name.  The table
  is an object literal, so a name that is not one of its ten tiers still finds the member
  that every object inherits under that name, if there is one, and is \<open>undefined\<close>
  otherwise.  The values of the table are integers, which are doubles.
\<close>

definition weights_get :: "NormalizedWeights \<Rightarrow> string \<Rightarrow> jsvalue" where
  "weights_get weights tierKey =
    (if tierKey = ''skills_keywords'' then Number (Fin (skills_keywords weights))
     else if tierKey = ''experience'' then Number (Fin (experience weights))
     else if tierKey = ''education'' then Number (Fin (education weights))
     else if tierKey = ''projects'' then Number (Fin (projects weights))
     else if tierKey = ''certifications'' then Number (Fin (certifications weights))
     else if tierKey = ''basic_structure'' then Number (Fin (basic_structure weights))
     else if tierKey = ''content_structure'' then Number (Fin (content_structure weights))
     else if tierKey = ''competitive'' then Number (Fin (competitive weights))
     else if tierKey = ''culture_fit'' then Number (Fin (culture_fit weights))
     else if tierKey = ''qualitative'' then Number (Fin (qualitative weights))
     else if tierKey \<in> set object_prototype_members then Member tierKey
     else Undefined)"

text \<open>\<open>weights[tierKey] ?? tier.weight\<close>.\<close>

definition newWeight :: "NormalizedWeights \<Rightarrow> string \<Rightarrow> 'a TierScore_scheme \<Rightarrow> jsvalue" where
  "newWeight weights tierKey tier =
    (case weights_get weights tierKey of Undefined \<Rightarrow> weight tier | v \<Rightarrow> v)"

text \<open>
  The loop over \<open>Object.entries(tierScores)\<close> assigns one property of the result per
  entry; \<open>AList.update\<close> is that assignment (a new key goes to the end, a key already
  there keeps its place).  An assignment to \<open>__proto__\<close> sets the prototype of the result
  and adds no property to it.
\<close>

definition applyNormalizedWeights :: "'a TierScores \<Rightarrow> CandidateLevel \<Rightarrow> 'a TierScores" where
  "applyNormalizedWeights tierScores candidateLevel =
    (let weights = getNormalizedWeights candidateLevel
     in fold (\<lambda>(key, tier) normalizedScores.
                if key = ''__proto__'' then normalizedScores
                else
                  AList.update key
                    (tier\<lparr>weight := newWeight weights key tier,
                          weighted_contribution :=
                            js_div (js_mul (percentage tier)
                                      (ToNumber (newWeight weights key tier)))
                                   (Fin 100)\<rparr>)
                    normalizedScores)
             tierScores [])"

text \<open>
  Three tiers as a concrete input: one in every weight table, one in none, and one whose
  percentage is the double that the literal \<open>0.1\<close> denotes.
\<close>

definition sample_tiers :: "unit TierScores" where
  "sample_tiers =
     [(''experience'',
        \<lparr>percentage = Fin 50, weight = Number (Fin 30), weighted_contribution = Fin 15\<rparr>),
      (''red_flags'',
        \<lparr>percentage = Fin 80, weight = Number (Fin 10), weighted_contribution = Fin 8\<rparr>),
      (''qualitative'',
        \<lparr>percentage = Fin (3602879701896397 / 36028797018963968), weight = Number (Fin 2),
         weighted_contribution = Fin 0\<rparr>)]"

section \<open>Score adjustment\<close>

text \<open>
  The multipliers are the doubles that the literals \<open>1.0\<close>, \<open>0.95\<close>, \<open>0.85\<close>, \<open>0.70\<close> and
  \<open>0.40\<close> denote: the decimal values, rounded.
\<close>

definition calculateAdjustedScore ::
  "double \<Rightarrow> InputQualityAssessment \<Rightarrow> CandidateLevel \<Rightarrow> ScoreAdjustment" where
  "calculateAdjustedScore baseScore' inputQuality candidateLevel =
    (let (qualityMultiplier', explanation0) =
           (case quality inputQuality of
              excellent \<Rightarrow>
                (round64 1.0, ''Full scoring applied - excellent input quality'')
            | good \<Rightarrow> (round64 0.95, ''Minor quality adjustment applied'')
            | fair \<Rightarrow>
                (round64 0.85, ''Quality adjustment applied - some content missing'')
            | poor \<Rightarrow>
                (round64 0.70, ''Significant quality adjustment - incomplete resume'')
            | invalid \<Rightarrow>
                (round64 0.40, ''Major quality penalty - resume appears invalid or empty''));
         (candidateLevelBonus', explanation') =
           (if candidateLevel = ''fresher'' \<and> quality inputQuality \<noteq> invalid then
              (if hasProjects (contentMetrics inputQuality)
                  \<and> uniqueSkillCount (contentMetrics inputQuality) \<ge> 5
               then (Fin 5,
                     explanation0 @ '' | Fresher bonus applied for strong projects/skills'')
               else (Fin 0, explanation0))
            else (Fin 0, explanation0));
         adjustedBase = js_mul baseScore' qualityMultiplier';
         finalScore' =
           Math_min (Fin 100)
             (Math_max (Fin 0) (Math_round (js_add adjustedBase candidateLevelBonus')))
     in \<lparr>baseScore = baseScore',
         qualityMultiplier = qualityMultiplier',
         candidateLevelBonus = candidateLevelBonus',
         finalScore = finalScore',
         explanation = explanation'\<rparr>)"

text \<open>An assessment of a resume of poor quality, as a concrete input.\<close>

definition sample_assessment :: InputQualityAssessment where
  "sample_assessment =
     \<lparr>isValid = True, quality = poor, qualityScore = 25, issues = [],
      contentMetrics =
        \<lparr>wordCount = 120, sectionCount = 1, hasContactInfo = True, hasSkills = False,
         hasEducation = False, hasExperience = False, hasProjects = False,
         bulletCount = 0, uniqueSkillCount = 5\<rparr>\<rparr>"

section \<open>Confidence alignment\<close>

definition calculateAlignedConfidence ::
  "number \<Rightarrow> InputQualityAssessment \<Rightarrow> bool \<Rightarrow> ConfidenceLevel" where
  "calculateAlignedConfidence score inputQuality hasJD =
    (if score \<ge> 85 then High
     else
       let confidencePoints0 =
             (case quality inputQuality of
                excellent \<Rightarrow> 4 | good \<Rightarrow> 3 | fair \<Rightarrow> 2 | poor \<Rightarrow> 1 | invalid \<Rightarrow> (0::nat));
           confidencePoints1 = confidencePoints0 +
             (if score \<ge> 75 then 4
              else if score \<ge> 65 then 3
              else if score \<ge> 55 then 2
              else if score \<ge> 45 then 1
              else 0);
           confidencePoints2 = confidencePoints1 + (if hasJD then 1 else 0);
           contentMetrics' = contentMetrics inputQuality;
           sectionsPresent = length (filter id
             [hasContactInfo contentMetrics',
              hasSkills contentMetrics',
              hasEducation contentMetrics',
              hasExperience contentMetrics' \<or> hasProjects contentMetrics']);
           confidencePoints = confidencePoints2 + (if sectionsPresent \<ge> 4 then 1 else 0)
       in if confidencePoints \<ge> 7 then High
          else if confidencePoints \<ge> 4 then Medium
          else Low)"

section \<open>Job configuration service\<close>

text \<open>
  The service talks to a remote store and to a remote HTTP endpoint.  What an awaited
  remote call does is its outcome: it either throws (\<open>Inl\<close>) or returns a value (\<open>Inr\<close>).
  A thrown value is an \<open>Error\<close> object with its message, or some other value.  The outcome
  of each remote call is an argument of the operation that makes the call.
\<close>

datatype thrown = Error string | Thrown_value

text \<open>The \<open>{ data, error }\<close> object that a query on the store resolves to.\<close>

record 'a PostgrestResponse =
  data :: "'a option"
  error :: "thrown option"

text \<open>
  Modelled from the spec: the declarations of \<open>JobFetchConfig\<close>, \<open>JobSyncLog\<close> and
  \<open>ApifySearchConfig\<close> (module \<open>../types/jobs\<close>) are missing from the sources.  The spec
  describes them as records persisted in a remote table; the records below hold the
  fields that the service reads, with the names it reads them by, and the extension part
  of a record stands for the others.  A field that the service guards against being
  absent (\<open>keywords\<close>, \<open>maxResults\<close>, the job counts) is optional.
\<close>

record JobFetchConfig =
  is_active :: bool

record JobSyncLog =
  status :: string
  jobs_fetched :: "int option"
  jobs_created :: "int option"
  created_at :: string

record ApifySearchConfig =
  keywords' :: "string list option"
  location :: "string option"
  jobType :: "string option"
  experienceLevel :: "string option"
  maxResults :: "number option"

record OperationResult =
  success :: bool
  message :: string

record SyncStats =
  totalSyncs :: nat
  successfulSyncs :: nat
  failedSyncs :: nat
  totalJobsFetched :: int
  totalJobsCreated :: int
  lastSyncDate :: "string option"

record ValidationResult =
  valid :: bool
  errors :: "string list"

text \<open>The response of \<open>fetch\<close>, of which only \<open>ok\<close> is read.\<close>

record Response =
  ok :: bool

text \<open>
  \<open>getConfigById\<close>: the argument is the outcome of the awaited query
  \<open>from('job_fetch_configs').select('*').eq('id', id).maybeSingle()\<close>.
\<close>

definition getConfigById ::
  "thrown + ('c JobFetchConfig_scheme) PostgrestResponse \<Rightarrow> thrown + ('c JobFetchConfig_scheme) option" where
  "getConfigById query =
    (case query of
       Inl e \<Rightarrow> Inl e
     | Inr response \<Rightarrow>
         (case error response of
            Some e \<Rightarrow> Inl e
          | None \<Rightarrow> Inr (data response)))"

text \<open>
  \<open>triggerManualSync\<close>: \<open>store\<close> gives the outcome of the configuration query for an id,
  \<open>invoke\<close> the outcome of \<open>supabase.functions.invoke(name, { body: { configId } })\<close>.
  The body of the \<open>try\<close> block is \<open>triggerManualSync_try\<close>; the \<open>catch\<close> block turns what
  was thrown into a result.
\<close>

definition triggerManualSync_try ::
  "(string \<Rightarrow> thrown + ('c JobFetchConfig_scheme) PostgrestResponse) \<Rightarrow>
   (string \<Rightarrow> string \<Rightarrow> thrown + 'd PostgrestResponse) \<Rightarrow> string \<Rightarrow> thrown + OperationResult" where
  "triggerManualSync_try store invoke configId =
    (case getConfigById (store configId) of
       Inl e \<Rightarrow> Inl e
     | Inr config \<Rightarrow>
         (case config of
            None \<Rightarrow> Inl (Error ''Configuration not found'')
          | Some c \<Rightarrow>
              if \<not> is_active c then Inl (Error ''Configuration is not active'')
              else
                (case invoke ''apify-sync-jobs'' configId of
                   Inl e \<Rightarrow> Inl e
                 | Inr response \<Rightarrow>
                     (case error response of
                        Some e \<Rightarrow> Inl e
                      | None \<Rightarrow>
                          Inr \<lparr>success = True,
                               message = ''Sync initiated successfully''\<rparr>))))"

definition triggerManualSync ::
  "(string \<Rightarrow> thrown + ('c JobFetchConfig_scheme) PostgrestResponse) \<Rightarrow>
   (string \<Rightarrow> string \<Rightarrow> thrown + 'd PostgrestResponse) \<Rightarrow> string \<Rightarrow> thrown + OperationResult" where
  "triggerManualSync store invoke configId =
    (case triggerManualSync_try store invoke configId of
       Inr result \<Rightarrow> Inr result
     | Inl e \<Rightarrow>
         Inr \<lparr>success = False,
              message = (case e of Error m \<Rightarrow> m | Thrown_value \<Rightarrow> ''Failed to trigger sync'')\<rparr>)"

text \<open>
  \<open>testApifyConnection\<close>: \<open>fetch\<close> gives the outcome of the request from its URL and its
  \<open>Authorization\<close> header.
\<close>

definition testApifyConnection_try ::
  "(string \<Rightarrow> string \<Rightarrow> thrown + 'r Response_scheme) \<Rightarrow> string \<Rightarrow> string \<Rightarrow> thrown + OperationResult" where
  "testApifyConnection_try fetch apiToken actorId =
    (case fetch (''https://api.apify.com/v2/acts/'' @ actorId) (''Bearer '' @ apiToken) of
       Inl e \<Rightarrow> Inl e
     | Inr response \<Rightarrow>
         if \<not> ok response then Inl (Error ''Invalid API token or Actor ID'')
         else Inr \<lparr>success = True, message = ''Connection successful''\<rparr>)"

definition testApifyConnection ::
  "(string \<Rightarrow> string \<Rightarrow> thrown + 'r Response_scheme) \<Rightarrow> string \<Rightarrow> string \<Rightarrow> thrown + OperationResult" where
  "testApifyConnection fetch apiToken actorId =
    (case testApifyConnection_try fetch apiToken actorId of
       Inr result \<Rightarrow> Inr result
     | Inl e \<Rightarrow>
         Inr \<lparr>success = False,
              message = (case e of Error m \<Rightarrow> m | Thrown_value \<Rightarrow> ''Connection failed'')\<rparr>)"

text \<open>
  \<open>getSyncStats\<close>: the argument is the outcome of the awaited query
  \<open>from('job_sync_logs').select('*')\<close>, its rows in the order in which the store returns
  them.  \<open>x || 0\<close> and \<open>x || null\<close> replace a missing, zero or empty value.
\<close>

definition or_zero :: "int option \<Rightarrow> int" where
  "or_zero x = (case x of None \<Rightarrow> 0 | Some n \<Rightarrow> n)"

definition getSyncStats ::
  "thrown + (('l JobSyncLog_scheme) list) PostgrestResponse \<Rightarrow> thrown + SyncStats" where
  "getSyncStats query =
    (case query of
       Inl e \<Rightarrow> Inl e
     | Inr response \<Rightarrow>
         (case error response of
            Some e \<Rightarrow> Inl e
          | None \<Rightarrow>
              let logs = data response
              in Inr
                \<lparr>totalSyncs = (case logs of None \<Rightarrow> 0 | Some ls \<Rightarrow> length ls),
                 successfulSyncs =
                   (case logs of None \<Rightarrow> 0
                    | Some ls \<Rightarrow> length (filter (\<lambda>l. status l = ''success'') ls)),
                 failedSyncs =
                   (case logs of None \<Rightarrow> 0
                    | Some ls \<Rightarrow> length (filter (\<lambda>l. status l = ''failed'') ls)),
                 totalJobsFetched =
                   (case logs of None \<Rightarrow> 0
                    | Some ls \<Rightarrow> foldl (\<lambda>sum l. sum + or_zero (jobs_fetched l)) 0 ls),
                 totalJobsCreated =
                   (case logs of None \<Rightarrow> 0
                    | Some ls \<Rightarrow> foldl (\<lambda>sum l. sum + or_zero (jobs_created l)) 0 ls),
                 lastSyncDate =
                   (case logs of None \<Rightarrow> None
                    | Some [] \<Rightarrow> None
                    | Some (l # _) \<Rightarrow> if created_at l = [] then None else Some (created_at l))\<rparr>))"

text \<open>
  \<open>validateSearchConfig\<close>.  A number is truthy when it is not zero; \<open>errors.push\<close> appends.
\<close>

definition validateSearchConfig :: "'s ApifySearchConfig_scheme \<Rightarrow> ValidationResult" where
  "validateSearchConfig config =
    (let errors0 = [];
         errors1 =
           (if (case keywords' config of None \<Rightarrow> True | Some ks \<Rightarrow> length ks = 0)
            then errors0 @ [''At least one keyword is required'']
            else errors0);
         errors2 =
           (if (case maxResults config of
                  None \<Rightarrow> False
                | Some m \<Rightarrow> m \<noteq> 0 \<and> (m < 1 \<or> m > 1000))
            then errors1 @ [''Max results must be between 1 and 1000'']
            else errors1)
     in \<lparr>valid = (length errors2 = 0), errors = errors2\<rparr>)"

section \<open>Properties of the scoring functions\<close>

subsection \<open>Double arithmetic\<close>

text \<open>
  The equations that evaluate the rounding and the operators on concrete doubles, and the
  doubles that the five multiplier literals denote.
\<close>

lemmas double_eval =
  round64_def signed_def on_grid_def ulp_def round_half_even_def nearest_even_def
  ilog2_def ilog2_above_def ilog2_below_def pow2_def bits.simps

lemmas double_ops =
  js_mul_def js_add_def js_div_def Math_round_def Math_max_def Math_min_def double_less_def
  integer_of_def finite_value_def is_negative_def is_zero_def is_infinite_def zero_of_def
  infinity_of_def

lemma multiplier_values:
  "round64 1.0 = Fin 1"
  "round64 0.95 = Fin (4278419646001971 / 4503599627370496)"
  "round64 0.85 = Fin (7656119366529843 / 9007199254740992)"
  "round64 0.70 = Fin (3152519739159347 / 4503599627370496)"
  "round64 0.40 = Fin (3602879701896397 / 9007199254740992)"
  by (simp_all add: double_eval)

lemma round64_not_NaN: "round64 x \<noteq> NaN"
  by (simp add: round64_def signed_def)

lemma js_mul_not_NaN: "b \<noteq> NaN \<Longrightarrow> x \<noteq> 0 \<Longrightarrow> js_mul b (Fin x) \<noteq> NaN"
  by (simp add: js_mul_def is_infinite_def is_zero_def zero_of_def infinity_of_def
        round64_not_NaN)

lemma js_add_not_NaN: "s \<noteq> NaN \<Longrightarrow> js_add s (Fin c) \<noteq> NaN"
  by (simp add: js_add_def is_infinite_def round64_not_NaN)

lemma clamp_round_Fin:
  "Math_min (Fin 100) (Math_max (Fin 0) (Math_round (Fin v)))
   = Fin (of_int (min 100 (max 0 \<lfloor>v + 1 / 2\<rfloor>)))"
proof -
  define r where "r = \<lfloor>v + 1 / 2\<rfloor>"
  have rd: "Math_round (Fin v) = integer_of v r"
    by (simp add: Math_round_def r_def)
  have m: "Math_max (Fin 0) (integer_of v r) = Fin (of_int (max 0 r))"
    by (auto simp: integer_of_def Math_max_def double_less_def
          is_infinite_def finite_value_def max_def)
  have "Math_min (Fin 100) (Fin (of_int (max 0 r))) = Fin (of_int (min 100 (max 0 r)))"
    by (auto simp: Math_min_def double_less_def is_infinite_def finite_value_def
          min_def max_def)
  with m rd show ?thesis by (simp add: r_def)
qed

lemma clamp_round_other:
  "Math_min (Fin 100) (Math_max (Fin 0) (Math_round PInf)) = Fin 100"
  "Math_min (Fin 100) (Math_max (Fin 0) (Math_round NInf)) = Fin 0"
  "Math_min (Fin 100) (Math_max (Fin 0) (Math_round NZero)) = Fin 0"
  "Math_min (Fin 100) (Math_max (Fin 0) (Math_round NaN)) = NaN"
  by (simp_all add: Math_round_def Math_max_def Math_min_def double_less_def
        is_infinite_def finite_value_def)

subsection \<open>Score adjustment\<close>

lemma calculateAdjustedScore_fields:
  "qualityMultiplier (calculateAdjustedScore b q l) =
     (case quality q of excellent \<Rightarrow> round64 1.0 | good \<Rightarrow> round64 0.95
        | fair \<Rightarrow> round64 0.85 | poor \<Rightarrow> round64 0.70 | invalid \<Rightarrow> round64 0.40)"
  "candidateLevelBonus (calculateAdjustedScore b q l) =
     (if l = ''fresher'' \<and> quality q \<noteq> invalid \<and> hasProjects (contentMetrics q)
         \<and> uniqueSkillCount (contentMetrics q) \<ge> 5 then Fin 5 else Fin 0)"
  "finalScore (calculateAdjustedScore b q l) =
     Math_min (Fin 100) (Math_max (Fin 0) (Math_round
       (js_add (js_mul b (qualityMultiplier (calculateAdjustedScore b q l)))
               (candidateLevelBonus (calculateAdjustedScore b q l)))))"
  by (cases "quality q";
      simp only: calculateAdjustedScore_def Let_def quality_label.case prod.case
                 ScoreAdjustment.select_convs split: if_split;
      simp)+

lemma nonzero_Fin: "y \<noteq> 0 \<Longrightarrow> \<exists>x. x \<noteq> 0 \<and> Fin y = Fin x"
  by blast

lemma multiplier_cases:
  "\<exists>x. x \<noteq> 0 \<and> qualityMultiplier (calculateAdjustedScore b q l) = Fin x"
  unfolding calculateAdjustedScore_fields(1)
  by (cases "quality q";
      simp only: quality_label.case multiplier_values; rule nonzero_Fin; simp)

lemma bonus_cases:
  "\<exists>c. candidateLevelBonus (calculateAdjustedScore b q l) = Fin c"
  unfolding calculateAdjustedScore_fields(2) by simp

lemma adjusted_sum_not_NaN:
  assumes "b \<noteq> NaN"
  shows "js_add (js_mul b (qualityMultiplier (calculateAdjustedScore b q l)))
               (candidateLevelBonus (calculateAdjustedScore b q l)) \<noteq> NaN"
proof -
  obtain x where x: "x \<noteq> 0" "qualityMultiplier (calculateAdjustedScore b q l) = Fin x"
    using multiplier_cases by blast
  obtain c where c: "candidateLevelBonus (calculateAdjustedScore b q l) = Fin c"
    using bonus_cases by blast
  show ?thesis
    unfolding x(2) c by (rule js_add_not_NaN [OF js_mul_not_NaN [OF assms x(1)]])
qed

lemma finalScore_by_sum:
  "finalScore (calculateAdjustedScore b q l) =
     (case js_add (js_mul b (qualityMultiplier (calculateAdjustedScore b q l)))
               (candidateLevelBonus (calculateAdjustedScore b q l)) of
        Fin v \<Rightarrow> Fin (of_int (min 100 (max 0 \<lfloor>v + 1 / 2\<rfloor>)))
      | PInf \<Rightarrow> Fin 100
      | NInf \<Rightarrow> Fin 0
      | NZero \<Rightarrow> Fin 0
      | NaN \<Rightarrow> NaN)"
  unfolding calculateAdjustedScore_fields(3)
  by (cases "js_add (js_mul b (qualityMultiplier (calculateAdjustedScore b q l)))
               (candidateLevelBonus (calculateAdjustedScore b q l))")
     (simp_all only: double.case clamp_round_Fin clamp_round_other)

lemma finalScore_range:
  assumes "b \<noteq> NaN"
  shows "\<exists>n. finalScore (calculateAdjustedScore b q l) = Fin (of_int n) \<and> 0 \<le> n \<and> n \<le> 100"
proof (cases "js_add (js_mul b (qualityMultiplier (calculateAdjustedScore b q l)))
               (candidateLevelBonus (calculateAdjustedScore b q l))")
  case NaN
  with adjusted_sum_not_NaN [OF assms] show ?thesis by blast
next
  case PInf
  have "finalScore (calculateAdjustedScore b q l) = Fin (of_int 100)"
    unfolding finalScore_by_sum PInf by simp
  then show ?thesis by (intro exI [of _ 100]) simp
next
  case NInf
  have "finalScore (calculateAdjustedScore b q l) = Fin (of_int 0)"
    unfolding finalScore_by_sum NInf by simp
  then show ?thesis by (intro exI [of _ 0]) simp
next
  case NZero
  have "finalScore (calculateAdjustedScore b q l) = Fin (of_int 0)"
    unfolding finalScore_by_sum NZero by simp
  then show ?thesis by (intro exI [of _ 0]) simp
next
  case (Fin v)
  have "finalScore (calculateAdjustedScore b q l)
        = Fin (of_int (min 100 (max 0 \<lfloor>v + 1 / 2\<rfloor>)))"
    unfolding finalScore_by_sum Fin by simp
  then show ?thesis by (intro exI [of _ "min 100 (max 0 \<lfloor>v + 1 / 2\<rfloor>)"]) simp
qed

lemma adjusted_instances:
  "quality q = invalid \<Longrightarrow> finalScore (calculateAdjustedScore (Fin 80) q ''senior'') = Fin 32"
  "quality q = poor \<Longrightarrow> finalScore (calculateAdjustedScore (Fin 45) q ''senior'') = Fin 31"
  "quality q = poor \<Longrightarrow> finalScore (calculateAdjustedScore (Fin 85) q ''senior'') = Fin 59"
  "quality q = good \<Longrightarrow> finalScore (calculateAdjustedScore (Fin 50) q ''senior'') = Fin 48"
  "quality q = excellent \<Longrightarrow>
     finalScore (calculateAdjustedScore (Fin (- 10)) q ''senior'') = Fin 0"
  "quality q = excellent \<Longrightarrow> hasProjects (contentMetrics q) \<Longrightarrow>
     uniqueSkillCount (contentMetrics q) \<ge> 5 \<Longrightarrow>
     finalScore (calculateAdjustedScore (Fin 100) q ''fresher'') = Fin 100"
  unfolding finalScore_by_sum calculateAdjustedScore_fields(1,2)
  by (simp_all only: quality_label.case multiplier_values)
     (simp_all add: double_ops double_eval)

text \<open>
  C1, as amended.  For every quality assessment and candidate level and every base score
  other than \<open>NaN\<close>, with the arithmetic of the source carried out in doubles:
  \<open>calculateAdjustedScore\<close> returns the multiplier looked up from the quality label, which
  is the double nearest to 1.00, 0.95, 0.85, 0.70 or 0.40 (excellent, good, fair, poor,
  invalid); a bonus of 5 exactly when the level is \<open>fresher\<close>, the quality is not invalid,
  the resume has projects and at least five unique skills, and 0 otherwise; and a final
  score that is the double product of base score and multiplier, plus the bonus, rounded
  to the nearest integer (a tie going up) and clamped to the integers from 0 to 100.  The
  product is rounded as a double before \<open>Math.round\<close> sees it: a base score of 45 on a
  poor resume gives 31 and one of 85 gives 59, where the decimal products 31.5 and 59.5
  would round to 32 and 60.  In particular 80 on an invalid resume at level \<open>senior\<close>
  gives 32, 50 on a good one gives 48, a negative base score gives 0, and 100 with the
  fresher bonus gives 100.
\<close>

theorem calculateAdjustedScore_spec:
  "qualityMultiplier (calculateAdjustedScore b q l) =
     (case quality q of excellent \<Rightarrow> round64 1.0 | good \<Rightarrow> round64 0.95
        | fair \<Rightarrow> round64 0.85 | poor \<Rightarrow> round64 0.70 | invalid \<Rightarrow> round64 0.40)
   \<and> qualityMultiplier (calculateAdjustedScore b q l) =
     (case quality q of
        excellent \<Rightarrow> Fin 1
      | good \<Rightarrow> Fin (4278419646001971 / 4503599627370496)
      | fair \<Rightarrow> Fin (7656119366529843 / 9007199254740992)
      | poor \<Rightarrow> Fin (3152519739159347 / 4503599627370496)
      | invalid \<Rightarrow> Fin (3602879701896397 / 9007199254740992))
   \<and> candidateLevelBonus (calculateAdjustedScore b q l) =
     (if l = ''fresher'' \<and> quality q \<noteq> invalid \<and> hasProjects (contentMetrics q)
         \<and> uniqueSkillCount (contentMetrics q) \<ge> 5 then Fin 5 else Fin 0)
   \<and> (b \<noteq> NaN \<longrightarrow>
        (let s = js_add (js_mul b (qualityMultiplier (calculateAdjustedScore b q l)))
                        (candidateLevelBonus (calculateAdjustedScore b q l))
         in s \<noteq> NaN
            \<and> (\<forall>v. s = Fin v \<longrightarrow>
                  finalScore (calculateAdjustedScore b q l)
                    = Fin (of_int (min 100 (max 0 \<lfloor>v + 1 / 2\<rfloor>))))
            \<and> (s = PInf \<longrightarrow> finalScore (calculateAdjustedScore b q l) = Fin 100)
            \<and> (s = NInf \<or> s = NZero \<longrightarrow> finalScore (calculateAdjustedScore b q l) = Fin 0)
            \<and> (\<exists>n. finalScore (calculateAdjustedScore b q l) = Fin (of_int n)
                    \<and> 0 \<le> n \<and> n \<le> 100)))
   \<and> finalScore (calculateAdjustedScore (Fin 80) (q\<lparr>quality := invalid\<rparr>) ''senior'') = Fin 32
   \<and> finalScore (calculateAdjustedScore (Fin 45) (q\<lparr>quality := poor\<rparr>) ''senior'') = Fin 31
   \<and> finalScore (calculateAdjustedScore (Fin 85) (q\<lparr>quality := poor\<rparr>) ''senior'') = Fin 59
   \<and> finalScore (calculateAdjustedScore (Fin 50) (q\<lparr>quality := good\<rparr>) ''senior'') = Fin 48
   \<and> finalScore (calculateAdjustedScore (Fin (- 10)) (q\<lparr>quality := excellent\<rparr>) ''senior'')
       = Fin 0
   \<and> finalScore (calculateAdjustedScore (Fin 100)
         (q\<lparr>quality := excellent,
            contentMetrics := (contentMetrics q)\<lparr>hasProjects := True, uniqueSkillCount := 5\<rparr>\<rparr>)
         ''fresher'') = Fin 100"
proof -
  have mult: "qualityMultiplier (calculateAdjustedScore b q l) =
     (case quality q of
        excellent \<Rightarrow> Fin 1
      | good \<Rightarrow> Fin (4278419646001971 / 4503599627370496)
      | fair \<Rightarrow> Fin (7656119366529843 / 9007199254740992)
      | poor \<Rightarrow> Fin (3152519739159347 / 4503599627370496)
      | invalid \<Rightarrow> Fin (3602879701896397 / 9007199254740992))"
    unfolding calculateAdjustedScore_fields(1)
    by (cases "quality q"; simp only: quality_label.case multiplier_values)
  have final: "let s = js_add (js_mul b (qualityMultiplier (calculateAdjustedScore b q l)))
                        (candidateLevelBonus (calculateAdjustedScore b q l))
         in s \<noteq> NaN
            \<and> (\<forall>v. s = Fin v \<longrightarrow>
                  finalScore (calculateAdjustedScore b q l)
                    = Fin (of_int (min 100 (max 0 \<lfloor>v + 1 / 2\<rfloor>))))
            \<and> (s = PInf \<longrightarrow> finalScore (calculateAdjustedScore b q l) = Fin 100)
            \<and> (s = NInf \<or> s = NZero \<longrightarrow> finalScore (calculateAdjustedScore b q l) = Fin 0)
            \<and> (\<exists>n. finalScore (calculateAdjustedScore b q l) = Fin (of_int n)
                    \<and> 0 \<le> n \<and> n \<le> 100)"
    if "b \<noteq> NaN"
    unfolding Let_def
    using adjusted_sum_not_NaN [OF that, of q l] finalScore_range [OF that, of q l]
      finalScore_by_sum [of b q l]
    by (auto split: double.splits)
  have inst:
    "finalScore (calculateAdjustedScore (Fin 80) (q\<lparr>quality := invalid\<rparr>) ''senior'') = Fin 32"
    "finalScore (calculateAdjustedScore (Fin 45) (q\<lparr>quality := poor\<rparr>) ''senior'') = Fin 31"
    "finalScore (calculateAdjustedScore (Fin 85) (q\<lparr>quality := poor\<rparr>) ''senior'') = Fin 59"
    "finalScore (calculateAdjustedScore (Fin 50) (q\<lparr>quality := good\<rparr>) ''senior'') = Fin 48"
    "finalScore (calculateAdjustedScore (Fin (- 10)) (q\<lparr>quality := excellent\<rparr>) ''senior'')
       = Fin 0"
    "finalScore (calculateAdjustedScore (Fin 100)
         (q\<lparr>quality := excellent,
            contentMetrics := (contentMetrics q)\<lparr>hasProjects := True, uniqueSkillCount := 5\<rparr>\<rparr>)
         ''fresher'') = Fin 100"
    by (rule adjusted_instances; simp)+
  show ?thesis
    using calculateAdjustedScore_fields(1,2) [of b q l] mult final inst
    by blast
qed

theorem calculateAdjustedScore_spec_witness:
  "Fin 45 \<noteq> NaN
   \<and> qualityMultiplier (calculateAdjustedScore (Fin 45) sample_assessment ''senior'')
       = Fin (3152519739159347 / 4503599627370496)
   \<and> candidateLevelBonus (calculateAdjustedScore (Fin 45) sample_assessment ''senior'') = Fin 0
   \<and> js_add (js_mul (Fin 45) (Fin (3152519739159347 / 4503599627370496))) (Fin 0) \<noteq> NaN
   \<and> finalScore (calculateAdjustedScore (Fin 45) sample_assessment ''senior'') = Fin 31"
proof -
  note spec = calculateAdjustedScore_spec [of "Fin 45" sample_assessment "''senior''"]
  have q: "quality sample_assessment = poor"
    "sample_assessment\<lparr>quality := poor\<rparr> = sample_assessment"
    by (simp_all add: sample_assessment_def)
  have m: "qualityMultiplier (calculateAdjustedScore (Fin 45) sample_assessment ''senior'')
       = Fin (3152519739159347 / 4503599627370496)"
    using spec [THEN conjunct2, THEN conjunct1] by (simp only: q quality_label.case)
  have c: "candidateLevelBonus (calculateAdjustedScore (Fin 45) sample_assessment ''senior'')
       = Fin 0"
    using spec [THEN conjunct2, THEN conjunct2, THEN conjunct1] by simp
  have b: "Fin 45 \<noteq> NaN" by simp
  have s: "js_add (js_mul (Fin 45) (Fin (3152519739159347 / 4503599627370496))) (Fin 0) \<noteq> NaN"
    using spec [THEN conjunct2, THEN conjunct2, THEN conjunct2, THEN conjunct1, THEN mp, OF b]
    unfolding Let_def m c by (rule conjunct1)
  have f: "finalScore (calculateAdjustedScore (Fin 45) sample_assessment ''senior'') = Fin 31"
    using spec [THEN conjunct2, THEN conjunct2, THEN conjunct2, THEN conjunct2,
                THEN conjunct2, THEN conjunct1]
    by (simp only: q)
  from b m c s f show ?thesis by (intro conjI)
qed

text \<open>
  C1, the counterexample to the claim as it was stated for every base score: the base
  score \<open>NaN\<close> goes through the multiplication, the addition, \<open>Math.round\<close>, \<open>Math.max\<close>
  and \<open>Math.min\<close> unchanged, so the final score is \<open>NaN\<close> and not a number from 0 to 100.
\<close>

theorem calculateAdjustedScore_NaN_counterexample:
  "finalScore (calculateAdjustedScore NaN sample_assessment ''senior'') = NaN"
  unfolding finalScore_by_sum by (simp add: js_mul_def js_add_def)

subsection \<open>Confidence\<close>

text \<open>
  C5.  For every score of at least 85, \<open>calculateAlignedConfidence\<close> returns \<open>High\<close>,
  whatever the quality assessment and the job description flag are.
\<close>

theorem calculateAlignedConfidence_short_circuit:
  "score \<ge> 85 \<Longrightarrow> calculateAlignedConfidence score q hasJD = High"
  by (simp add: calculateAlignedConfidence_def)

theorem calculateAlignedConfidence_short_circuit_witness:
  "(90::real) \<ge> 85 \<and>
   calculateAlignedConfidence 90
     \<lparr>isValid = False, quality = invalid, qualityScore = 0, issues = [],
      contentMetrics = \<lparr>wordCount = 0, sectionCount = 0, hasContactInfo = False,
        hasSkills = False, hasEducation = False, hasExperience = False,
        hasProjects = False, bulletCount = 0, uniqueSkillCount = 0\<rparr>\<rparr> False = High"
proof -
  have h: "(90::real) \<ge> 85" by simp
  show ?thesis using h calculateAlignedConfidence_short_circuit [OF h] by blast
qed

subsection \<open>Weight tables\<close>

text \<open>
  C10.  For every candidate level, the recognised ones and any other string (which gets
  the senior table), the ten weights of the table returned by \<open>getNormalizedWeights\<close> sum
  to exactly 100.
\<close>

theorem getNormalizedWeights_sum:
  "skills_keywords (getNormalizedWeights l) + experience (getNormalizedWeights l)
   + education (getNormalizedWeights l) + projects (getNormalizedWeights l)
   + certifications (getNormalizedWeights l) + basic_structure (getNormalizedWeights l)
   + content_structure (getNormalizedWeights l) + competitive (getNormalizedWeights l)
   + culture_fit (getNormalizedWeights l) + qualitative (getNormalizedWeights l) = 100"
  by (simp add: getNormalizedWeights_def)

subsection \<open>Applying the weights\<close>

lemma update_fresh: "k \<notin> fst ` set al \<Longrightarrow> AList.update k v al = al @ [(k, v)]"
  by (induction al) auto

lemma fold_update_distinct:
  "distinct (map fst ts) \<Longrightarrow> fst ` set ts \<inter> fst ` set acc = {} \<Longrightarrow>
   skip \<notin> fst ` set ts \<Longrightarrow>
   fold (\<lambda>(k, t) al. if k = skip then al else AList.update k (f k t) al) ts acc
     = acc @ map (\<lambda>(k, t). (k, f k t)) ts"
proof (induction ts arbitrary: acc)
  case Nil
  then show ?case by simp
next
  case (Cons p ts)
  obtain k t where p: "p = (k, t)" by (cases p)
  from Cons.prems have fresh: "k \<notin> fst ` set acc" by (auto simp: p)
  from Cons.prems have k: "k \<noteq> skip" by (auto simp: p)
  have d: "distinct (map fst ts)" using Cons.prems by simp
  have disj: "fst ` set ts \<inter> fst ` set (acc @ [(k, f k t)]) = {}"
    using Cons.prems by (auto simp: p)
  have s: "skip \<notin> fst ` set ts" using Cons.prems by simp
  show ?case
    using Cons.IH [OF d disj s] by (simp add: p k update_fresh [OF fresh])
qed

lemma map_of_map_entry:
  "distinct (map fst ts) \<Longrightarrow> (k, t) \<in> set ts \<Longrightarrow>
   map_of (map (\<lambda>(k, t). (k, f k t)) ts) k = Some (f k t)"
  by (induction ts) (auto simp: image_iff)

lemma applyNormalizedWeights_map:
  assumes "distinct (map fst ts)" and "''__proto__'' \<notin> fst ` set ts"
  shows "applyNormalizedWeights ts l =
     map (\<lambda>(k, t). (k, t\<lparr>weight := newWeight (getNormalizedWeights l) k t,
                         weighted_contribution :=
                           js_div (js_mul (percentage t)
                                     (ToNumber (newWeight (getNormalizedWeights l) k t)))
                                  (Fin 100)\<rparr>)) ts"
proof -
  have "fst ` set ts \<inter> fst ` set ([] :: 'a TierScores) = {}" by simp
  from fold_update_distinct [OF assms(1) this assms(2)]
  show ?thesis
    by (simp only: applyNormalizedWeights_def Let_def append_Nil)
qed

lemma newWeight_table:
  assumes "k \<notin> set object_prototype_members"
  shows "newWeight w k t =
     (if k = ''skills_keywords'' then Number (Fin (skills_keywords w))
      else if k = ''experience'' then Number (Fin (experience w))
      else if k = ''education'' then Number (Fin (education w))
      else if k = ''projects'' then Number (Fin (projects w))
      else if k = ''certifications'' then Number (Fin (certifications w))
      else if k = ''basic_structure'' then Number (Fin (basic_structure w))
      else if k = ''content_structure'' then Number (Fin (content_structure w))
      else if k = ''competitive'' then Number (Fin (competitive w))
      else if k = ''culture_fit'' then Number (Fin (culture_fit w))
      else if k = ''qualitative'' then Number (Fin (qualitative w))
      else weight t)"
  using assms by (simp add: newWeight_def weights_get_def)

text \<open>
  C3.  For every candidate level and every tier-score object whose keys are not names
  that every object inherits (an object has each key once, so the keys are distinct),
  \<open>applyNormalizedWeights\<close> returns an object with exactly the keys of its input, in the
  same order; for each tier the weight is the value that the level's table has under the
  tier's key, for the ten keys of the table, and the tier's own weight for any other key;
  the weighted contribution is the double product of the percentage and the new weight,
  divided by 100 as a double; and the percentage and every other field of the tier are
  unchanged.
\<close>

theorem applyNormalizedWeights_spec:
  assumes "distinct (map fst ts)"
    and "set (map fst ts) \<inter> set object_prototype_members = {}"
  shows "map fst (applyNormalizedWeights ts l) = map fst ts
    \<and> (\<forall>(k, t) \<in> set ts. \<exists>t'.
          map_of (applyNormalizedWeights ts l) k = Some t'
          \<and> weight t' =
              (if k = ''skills_keywords''
               then Number (Fin (skills_keywords (getNormalizedWeights l)))
               else if k = ''experience''
               then Number (Fin (experience (getNormalizedWeights l)))
               else if k = ''education''
               then Number (Fin (education (getNormalizedWeights l)))
               else if k = ''projects''
               then Number (Fin (projects (getNormalizedWeights l)))
               else if k = ''certifications''
               then Number (Fin (certifications (getNormalizedWeights l)))
               else if k = ''basic_structure''
               then Number (Fin (basic_structure (getNormalizedWeights l)))
               else if k = ''content_structure''
               then Number (Fin (content_structure (getNormalizedWeights l)))
               else if k = ''competitive''
               then Number (Fin (competitive (getNormalizedWeights l)))
               else if k = ''culture_fit''
               then Number (Fin (culture_fit (getNormalizedWeights l)))
               else if k = ''qualitative''
               then Number (Fin (qualitative (getNormalizedWeights l)))
               else weight t)
          \<and> weighted_contribution t'
              = js_div (js_mul (percentage t) (ToNumber (weight t'))) (Fin 100)
          \<and> percentage t' = percentage t
          \<and> TierScore.more t' = TierScore.more t)"
proof -
  have proto: "''__proto__'' \<notin> fst ` set ts"
    using assms(2) by (auto simp: object_prototype_members_def)
  note eq = applyNormalizedWeights_map [OF assms(1) proto, of l]
  have keys: "map fst (applyNormalizedWeights ts l) = map fst ts"
    unfolding eq by (induction ts) auto
  have "\<exists>t'. map_of (applyNormalizedWeights ts l) k = Some t'
          \<and> weight t' =
              (if k = ''skills_keywords''
               then Number (Fin (skills_keywords (getNormalizedWeights l)))
               else if k = ''experience''
               then Number (Fin (experience (getNormalizedWeights l)))
               else if k = ''education''
               then Number (Fin (education (getNormalizedWeights l)))
               else if k = ''projects''
               then Number (Fin (projects (getNormalizedWeights l)))
               else if k = ''certifications''
               then Number (Fin (certifications (getNormalizedWeights l)))
               else if k = ''basic_structure''
               then Number (Fin (basic_structure (getNormalizedWeights l)))
               else if k = ''content_structure''
               then Number (Fin (content_structure (getNormalizedWeights l)))
               else if k = ''competitive''
               then Number (Fin (competitive (getNormalizedWeights l)))
               else if k = ''culture_fit''
               then Number (Fin (culture_fit (getNormalizedWeights l)))
               else if k = ''qualitative''
               then Number (Fin (qualitative (getNormalizedWeights l)))
               else weight t)
          \<and> weighted_contribution t'
              = js_div (js_mul (percentage t) (ToNumber (weight t'))) (Fin 100)
          \<and> percentage t' = percentage t
          \<and> TierScore.more t' = TierScore.more t"
    if mem: "(k, t) \<in> set ts" for k t
  proof -
    from mem assms(2) have k: "k \<notin> set object_prototype_members"
      by (auto simp: image_iff)
    show ?thesis
      unfolding eq map_of_map_entry [OF assms(1) mem] newWeight_table [OF k, symmetric]
      by simp
  qed
  with keys show ?thesis by blast
qed

theorem applyNormalizedWeights_spec_witness:
  "distinct (map fst sample_tiers)
   \<and> set (map fst sample_tiers) \<inter> set object_prototype_members = {}
   \<and> map fst (applyNormalizedWeights sample_tiers ''mid'')
       = [''experience'', ''red_flags'', ''qualitative'']
   \<and> map_of (applyNormalizedWeights sample_tiers ''mid'') ''experience''
       = Some \<lparr>percentage = Fin 50, weight = Number (Fin 25),
               weighted_contribution = Fin (25 / 2)\<rparr>
   \<and> map_of (applyNormalizedWeights sample_tiers ''mid'') ''red_flags''
       = Some \<lparr>percentage = Fin 80, weight = Number (Fin 10),
               weighted_contribution = Fin 8\<rparr>
   \<and> map_of (applyNormalizedWeights sample_tiers ''mid'') ''qualitative''
       = Some \<lparr>percentage = Fin (3602879701896397 / 36028797018963968),
               weight = Number (Fin 3),
               weighted_contribution = Fin (6917529027641083 / 2305843009213693952)\<rparr>"
proof -
  have d: "distinct (map fst sample_tiers)"
    by (simp add: sample_tiers_def)
  have i: "set (map fst sample_tiers) \<inter> set object_prototype_members = {}"
    by (simp add: sample_tiers_def object_prototype_members_def)
  note spec = applyNormalizedWeights_spec [OF d i, of "''mid''"]
  have keys: "map fst (applyNormalizedWeights sample_tiers ''mid'')
       = [''experience'', ''red_flags'', ''qualitative'']"
    using spec [THEN conjunct1] by (simp add: sample_tiers_def)
  have e: "map_of (applyNormalizedWeights sample_tiers ''mid'') ''experience''
       = Some \<lparr>percentage = Fin 50, weight = Number (Fin 25),
               weighted_contribution = Fin (25 / 2)\<rparr>"
  proof -
    have "(''experience'',
        \<lparr>percentage = Fin 50, weight = Number (Fin 30), weighted_contribution = Fin 15\<rparr>)
      \<in> set sample_tiers"
      by (simp add: sample_tiers_def)
    from spec [THEN conjunct2, THEN bspec, OF this]
    obtain t' :: "unit TierScore_scheme" where
      m: "map_of (applyNormalizedWeights sample_tiers ''mid'') ''experience'' = Some t'"
      and w: "weight t' = Number (Fin 25)"
      and c: "weighted_contribution t' = js_div (js_mul (Fin 50) (ToNumber (weight t'))) (Fin 100)"
      and p: "percentage t' = Fin 50"
      by (auto simp: getNormalizedWeights_def)
    have "weighted_contribution t' = Fin (25 / 2)"
      unfolding c w by (simp add: ToNumber_def double_ops double_eval)
    with w p have "t' = \<lparr>percentage = Fin 50, weight = Number (Fin 25),
               weighted_contribution = Fin (25 / 2)\<rparr>"
      by (cases t') simp
    with m show ?thesis by simp
  qed
  have r: "map_of (applyNormalizedWeights sample_tiers ''mid'') ''red_flags''
       = Some \<lparr>percentage = Fin 80, weight = Number (Fin 10),
               weighted_contribution = Fin 8\<rparr>"
  proof -
    have "(''red_flags'',
        \<lparr>percentage = Fin 80, weight = Number (Fin 10), weighted_contribution = Fin 8\<rparr>)
      \<in> set sample_tiers"
      by (simp add: sample_tiers_def)
    from spec [THEN conjunct2, THEN bspec, OF this]
    obtain t' :: "unit TierScore_scheme" where
      m: "map_of (applyNormalizedWeights sample_tiers ''mid'') ''red_flags'' = Some t'"
      and w: "weight t' = Number (Fin 10)"
      and c: "weighted_contribution t' = js_div (js_mul (Fin 80) (ToNumber (weight t'))) (Fin 100)"
      and p: "percentage t' = Fin 80"
      by (auto simp: getNormalizedWeights_def)
    have "weighted_contribution t' = Fin 8"
      unfolding c w by (simp add: ToNumber_def double_ops double_eval)
    with w p have "t' = \<lparr>percentage = Fin 80, weight = Number (Fin 10),
               weighted_contribution = Fin 8\<rparr>"
      by (cases t') simp
    with m show ?thesis by simp
  qed
  have q: "map_of (applyNormalizedWeights sample_tiers ''mid'') ''qualitative''
       = Some \<lparr>percentage = Fin (3602879701896397 / 36028797018963968),
               weight = Number (Fin 3),
               weighted_contribution = Fin (6917529027641083 / 2305843009213693952)\<rparr>"
  proof -
    have "(''qualitative'',
        \<lparr>percentage = Fin (3602879701896397 / 36028797018963968), weight = Number (Fin 2),
         weighted_contribution = Fin 0\<rparr>)
      \<in> set sample_tiers"
      by (simp add: sample_tiers_def)
    from spec [THEN conjunct2, THEN bspec, OF this]
    obtain t' :: "unit TierScore_scheme" where
      m: "map_of (applyNormalizedWeights sample_tiers ''mid'') ''qualitative'' = Some t'"
      and w: "weight t' = Number (Fin 3)"
      and c: "weighted_contribution t'
          = js_div (js_mul (Fin (3602879701896397 / 36028797018963968))
                      (ToNumber (weight t'))) (Fin 100)"
      and p: "percentage t' = Fin (3602879701896397 / 36028797018963968)"
      by (auto simp: getNormalizedWeights_def)
    have "weighted_contribution t' = Fin (6917529027641083 / 2305843009213693952)"
      unfolding c w by (simp add: ToNumber_def double_ops double_eval)
    with w p have "t' = \<lparr>percentage = Fin (3602879701896397 / 36028797018963968),
               weight = Number (Fin 3),
               weighted_contribution = Fin (6917529027641083 / 2305843009213693952)\<rparr>"
      by (cases t') simp
    with m show ?thesis by simp
  qed
  from d i keys e r q show ?thesis by (intro conjI)
qed

section \<open>Properties of the input quality assessment\<close>

subsection \<open>The result in terms of the detectors\<close>

lemma assess_metrics:
  "contentMetrics (assessInputQuality inp) =
     \<lparr>wordCount = length (filter (\<lambda>w. length w > 0) (split_spaces [] (trim (resumeText inp)))),
      sectionCount = countSections (resumeText inp),
      hasContactInfo = checkContactInfo (resumeText inp),
      hasSkills = checkSkillsPresence (resumeText inp) (resumeData inp),
      hasEducation = checkEducationPresence (resumeText inp) (resumeData inp),
      hasExperience = checkExperiencePresence (resumeText inp) (resumeData inp),
      hasProjects = checkProjectsPresence (resumeText inp) (resumeData inp),
      bulletCount = countBulletPoints (resumeText inp) (resumeData inp),
      uniqueSkillCount = countUniqueSkills (resumeText inp) (resumeData inp)\<rparr>"
  by (simp only: assessInputQuality_def Let_def split_beta InputQualityAssessment.select_convs)




subsection \<open>Texts that start with filler words\<close>















lemmas regex_eval =
  whole_word_def seqs_def alts_def spaces_def one_or_more_def js_def
  atom_match_def word_before_def word_after_def is_word_def is_space_def
  upper_unit_def lower_unit_def progress_def









subsection \<open>The empty resume\<close>

text \<open>
  C4.  On the empty resume text with no structured data, \<open>assessInputQuality\<close> returns
  content metrics with word count 0, section count 0 and every presence signal false,
  quality score 0, quality \<open>invalid\<close> and \<open>isValid\<close> false (with all five issues reported,
  no bullets and no skills).
\<close>

theorem assessInputQuality_empty:
  "assessInputQuality \<lparr>resumeText = [], resumeData = None, userType = u\<rparr>
   = \<lparr>isValid = False, quality = invalid, qualityScore = 0,
       issues = [''Resume text too short (< 50 words)'', ''Resume appears incomplete'',
          ''Missing contact information'', ''No substantive content detected'',
          ''Missing standard resume sections''],
       contentMetrics = \<lparr>wordCount = 0, sectionCount = 0, hasContactInfo = False,
         hasSkills = False, hasEducation = False, hasExperience = False,
         hasProjects = False, bulletCount = 0, uniqueSkillCount = 0\<rparr>\<rparr>"
proof -
  have wc: "length (filter (\<lambda>w. length w > 0) (split_spaces [] (trim []))) = 0"
    by (simp add: trim_def)
  have sc: "countSections [] = 0"
    by (simp add: countSections_def sectionPatterns_def test_def regex_eval)
  have ci: "checkContactInfo [] = False"
    by (simp add: checkContactInfo_def test_def regex_eval)
  have sk: "checkSkillsPresence [] (None :: 'a ResumeData option) = False"
    by (simp add: checkSkillsPresence_def test_def regex_eval)
  have ed: "checkEducationPresence [] (None :: 'a ResumeData option) = False"
    by (simp add: checkEducationPresence_def test_def regex_eval)
  have ex: "checkExperiencePresence [] (None :: 'a ResumeData option) = False"
    by (simp add: checkExperiencePresence_def test_def regex_eval)
  have pr: "checkProjectsPresence [] (None :: 'a ResumeData option) = False"
    by (simp add: checkProjectsPresence_def test_def regex_eval)
  have bc: "countBulletPoints [] (None :: 'a ResumeData option) = 0"
    by (simp add: countBulletPoints_def regex_eval)
  have us: "countUniqueSkills [] (None :: 'a ResumeData option) = 0"
    by (simp add: countUniqueSkills_def toLowerCase_def js_def)
  show ?thesis
    by (simp only: assessInputQuality_def Let_def NormalModeInput.select_convs
          wc sc ci sk ed ex pr bc us)
       simp
qed

subsection \<open>Presence of skills\<close>

lemma has_nonempty_list:
  "list_ex (\<lambda>s. case list s of Some (x # xs) \<Rightarrow> True | _ \<Rightarrow> False) cats
   \<longleftrightarrow> (\<exists>s \<in> set cats. \<exists>l. list s = Some l \<and> l \<noteq> [])"
  by (auto simp: list_ex_iff split: option.splits list.splits)

lemma checkSkillsPresence_None:
  "checkSkillsPresence text None =
     (test (whole_word [Lit ''SKILLS'', seqs [Lit ''TECHNICAL'', spaces, Lit ''SKILLS''],
                        seqs [Lit ''CORE'', spaces, Lit ''COMPETENCIES'']]) True text
      \<or> test (whole_word [Lit ''javascript'', Lit ''python'', Lit ''java'', Lit ''react'',
                          Lit ''node'', Lit ''sql'', Lit ''aws'', Lit ''docker'', Lit ''git''])
              True text)"
  by (simp only: checkSkillsPresence_def Let_def Option.bind.simps option.case)

lemma checkSkillsPresence_no_skills:
  "skills rd = None \<or> skills rd = Some [] \<Longrightarrow>
     checkSkillsPresence text (Some rd) = checkSkillsPresence text None"
  by (erule disjE;
      simp only: checkSkillsPresence_def Let_def Option.bind.simps option.case list.case)

lemma checkSkillsPresence_categories:
  assumes "skills rd = Some cats" and "cats \<noteq> []"
  shows "checkSkillsPresence text (Some rd) =
       list_ex (\<lambda>s. case list s of Some (x # xs) \<Rightarrow> True | _ \<Rightarrow> False) cats"
proof (cases cats)
  case Nil
  with assms(2) show ?thesis by blast
next
  case (Cons s ss)
  with assms(1) have "skills rd = Some (s # ss)" by blast
  then show ?thesis
    unfolding Cons
    by (simp only: checkSkillsPresence_def Let_def Option.bind.simps option.case list.case)
qed


lemma hasSkills_eq:
  "hasSkills (contentMetrics (assessInputQuality inp))
   = checkSkillsPresence (resumeText inp) (resumeData inp)"
  by (simp only: assess_metrics ContentMetrics.select_convs)

lemma hasSkills_absent:
  fixes inp :: "'e NormalModeInput"
  assumes "resumeData inp = None
      \<or> (\<exists>rd. resumeData inp = Some rd \<and> (skills rd = None \<or> skills rd = Some []))"
  shows "hasSkills (contentMetrics (assessInputQuality inp))
         = checkSkillsPresence (resumeText inp) (None :: 'e ResumeData option)"
proof -
  from assms consider (none) "resumeData inp = None"
    | (some) rd where "resumeData inp = Some rd" "skills rd = None \<or> skills rd = Some []"
    by auto
  then show ?thesis
  proof cases
    case none
    then show ?thesis by (simp only: hasSkills_eq)
  next
    case some
    show ?thesis
      by (simp only: hasSkills_eq some(1) checkSkillsPresence_no_skills [OF some(2)])
  qed
qed

lemma hasSkills_present:
  assumes "resumeData inp = Some rd" "skills rd = Some cats" "cats \<noteq> []"
  shows "hasSkills (contentMetrics (assessInputQuality inp))
         = (\<exists>s \<in> set cats. \<exists>l. list s = Some l \<and> l \<noteq> [])"
  by (simp only: hasSkills_eq assms(1) checkSkillsPresence_categories [OF assms(2,3)]
        has_nonempty_list)


text \<open>
  C6, as amended.  When the structured skills are absent (no resume data, or no
  \<open>skills\<close> field) or an empty array, the \<open>hasSkills\<close> signal of \<open>assessInputQuality\<close> is the
  detection on the raw text: a skills section header or a known technology keyword.
  When \<open>skills\<close> is a non-empty array, the signal is true exactly when some category has
  a non-empty list, and the text is not consulted.
\<close>

theorem hasSkills_resolution:
  "((resumeData inp = None
      \<or> (\<exists>rd. resumeData inp = Some rd \<and> (skills rd = None \<or> skills rd = Some [])))
     \<longrightarrow> hasSkills (contentMetrics (assessInputQuality inp)) =
          (test (whole_word [Lit ''SKILLS'', seqs [Lit ''TECHNICAL'', spaces, Lit ''SKILLS''],
                             seqs [Lit ''CORE'', spaces, Lit ''COMPETENCIES'']])
                True (resumeText inp)
           \<or> test (whole_word [Lit ''javascript'', Lit ''python'', Lit ''java'', Lit ''react'',
                               Lit ''node'', Lit ''sql'', Lit ''aws'', Lit ''docker'',
                               Lit ''git''])
                   True (resumeText inp)))
   \<and> (\<forall>rd cats. resumeData inp = Some rd \<and> skills rd = Some cats \<and> cats \<noteq> []
        \<longrightarrow> hasSkills (contentMetrics (assessInputQuality inp)) =
              (\<exists>s \<in> set cats. \<exists>l. list s = Some l \<and> l \<noteq> []))"
proof (intro conjI impI allI)
  assume h: "resumeData inp = None
      \<or> (\<exists>rd. resumeData inp = Some rd \<and> (skills rd = None \<or> skills rd = Some []))"
  show "hasSkills (contentMetrics (assessInputQuality inp)) =
          (test (whole_word [Lit ''SKILLS'', seqs [Lit ''TECHNICAL'', spaces, Lit ''SKILLS''],
                             seqs [Lit ''CORE'', spaces, Lit ''COMPETENCIES'']])
                True (resumeText inp)
           \<or> test (whole_word [Lit ''javascript'', Lit ''python'', Lit ''java'', Lit ''react'',
                               Lit ''node'', Lit ''sql'', Lit ''aws'', Lit ''docker'',
                               Lit ''git''])
                   True (resumeText inp))"
    by (rule trans [OF hasSkills_absent [OF h] checkSkillsPresence_None])
next
  fix rd cats
  assume h: "resumeData inp = Some rd \<and> skills rd = Some cats \<and> cats \<noteq> []"
  show "hasSkills (contentMetrics (assessInputQuality inp))
          = (\<exists>s \<in> set cats. \<exists>l. list s = Some l \<and> l \<noteq> [])"
    by (rule hasSkills_present [OF conjunct1 [OF h] conjunct1 [OF conjunct2 [OF h]]
          conjunct2 [OF conjunct2 [OF h]]])
qed


theorem hasSkills_resolution_witness:
  "hasSkills (contentMetrics (assessInputQuality
      \<lparr>resumeText = js ''python'',
       resumeData = Some \<lparr>skills = Some [\<lparr>list = Some []\<rparr>],
                          ResumeData.education = (None :: unit list option),
                          workExperience = None, ResumeData.projects = None\<rparr>,
       userType = None\<rparr>))
   = (\<exists>s \<in> set [\<lparr>list = Some []\<rparr>]. \<exists>l. list s = Some l \<and> l \<noteq> [])"
proof -
  have "resumeData \<lparr>resumeText = js ''python'',
       resumeData = Some \<lparr>skills = Some [\<lparr>list = Some []\<rparr>],
                          ResumeData.education = (None :: unit list option),
                          workExperience = None, ResumeData.projects = None\<rparr>,
       userType = None\<rparr>
     = Some \<lparr>skills = Some [\<lparr>list = Some []\<rparr>],
                          ResumeData.education = (None :: unit list option),
                          workExperience = None, ResumeData.projects = None\<rparr>
   \<and> skills \<lparr>skills = Some [\<lparr>list = Some []\<rparr>],
                          ResumeData.education = (None :: unit list option),
                          workExperience = None, ResumeData.projects = None\<rparr>
       = Some [\<lparr>list = Some []\<rparr>]
   \<and> [\<lparr>list = Some []\<rparr>] \<noteq> []"
    by (simp only: NormalModeInput.select_convs ResumeData.select_convs list.distinct
          simp_thms)
  then show ?thesis
    by (rule mp [OF conjunct2 [OF hasSkills_resolution, THEN spec, THEN spec]])
qed

text \<open>
  C6, as stated, fails: for a resume whose \<open>skills\<close> array holds one category with an
  empty list and whose text is \<open>python\<close>, no category has a non-empty list, the detection
  on the raw text succeeds, and \<open>hasSkills\<close> is false.
\<close>

theorem hasSkills_fallback_counterexample:
  "hasSkills (contentMetrics (assessInputQuality
      \<lparr>resumeText = js ''python'',
       resumeData = Some \<lparr>skills = Some [\<lparr>list = Some []\<rparr>],
                          ResumeData.education = (None :: unit list option),
                          workExperience = None, ResumeData.projects = None\<rparr>,
       userType = None\<rparr>))
   \<noteq> (test (whole_word [Lit ''SKILLS'', seqs [Lit ''TECHNICAL'', spaces, Lit ''SKILLS''],
                        seqs [Lit ''CORE'', spaces, Lit ''COMPETENCIES'']])
           True (js ''python'')
      \<or> test (whole_word [Lit ''javascript'', Lit ''python'', Lit ''java'', Lit ''react'',
                          Lit ''node'', Lit ''sql'', Lit ''aws'', Lit ''docker'', Lit ''git''])
              True (js ''python''))"
proof -
  have t: "test (whole_word [Lit ''javascript'', Lit ''python'', Lit ''java'', Lit ''react'',
                          Lit ''node'', Lit ''sql'', Lit ''aws'', Lit ''docker'', Lit ''git''])
              True (js ''python'')"
    by (simp add: test_def regex_eval)
  have "checkSkillsPresence (js ''python'')
          (Some \<lparr>skills = Some [\<lparr>list = Some []\<rparr>],
                 ResumeData.education = (None :: unit list option),
                 workExperience = None, ResumeData.projects = None\<rparr>) = False"
    by (simp only: checkSkillsPresence_def Option.bind.simps ResumeData.select_convs
          option.case list.case list_ex_Nil_iff list_ex_Cons_iff
          SkillCategory.select_convs simp_thms)
  then have h: "\<not> hasSkills (contentMetrics (assessInputQuality
      \<lparr>resumeText = js ''python'',
       resumeData = Some \<lparr>skills = Some [\<lparr>list = Some []\<rparr>],
                          ResumeData.education = (None :: unit list option),
                          workExperience = None, ResumeData.projects = None\<rparr>,
       userType = None\<rparr>))"
    by (simp only: assess_metrics ContentMetrics.select_convs NormalModeInput.select_convs
          simp_thms)
  show ?thesis
    using t h by (simp only: simp_thms)
qed

section \<open>Properties of the job configuration service\<close>

text \<open>
  What \<open>validateSearchConfig\<close> accepts: a non-empty keyword list, and a \<open>maxResults\<close> that
  is absent, zero, or between 1 and 1000.
\<close>

lemma validateSearchConfig_valid_iff:
  "valid (validateSearchConfig config) \<longleftrightarrow>
     (case keywords' config of None \<Rightarrow> False | Some ks \<Rightarrow> ks \<noteq> [])
     \<and> (case maxResults config of None \<Rightarrow> True | Some m \<Rightarrow> m = 0 \<or> (1 \<le> m \<and> m \<le> 1000))"
  by (auto simp: validateSearchConfig_def split: option.splits)

text \<open>
  What \<open>getSyncStats\<close> reports as the last sync date: the timestamp of the first row that
  the query returned.
\<close>

lemma getSyncStats_lastSyncDate:
  "getSyncStats (Inr \<lparr>data = Some (l # ls), error = None\<rparr>) = Inr stats \<Longrightarrow>
   lastSyncDate stats = (if created_at l = [] then None else Some (created_at l))"
  by (auto simp: getSyncStats_def Let_def)

text \<open>
  C7.  \<open>validateSearchConfig\<close> at a configuration with one keyword and \<open>maxResults\<close> equal to
  0: the value lies outside the range from 1 to 1000 that the error message of the
  function names, and the configuration is reported valid with no error.
\<close>

theorem validateSearchConfig_zero_maxResults:
  "validateSearchConfig
     \<lparr>keywords' = Some [''software''], location = None, jobType = None,
      experienceLevel = None, maxResults = Some 0\<rparr>
   = \<lparr>valid = True, errors = []\<rparr>"
  by (simp add: validateSearchConfig_def)

text \<open>
  C8.  \<open>getSyncStats\<close> at a log table of two rows that the store returns oldest first:
  the counts and sums are those of the rows, and \<open>lastSyncDate\<close> is the timestamp of the
  first row returned, which is the older one.
\<close>

theorem getSyncStats_first_row:
  "getSyncStats (Inr \<lparr>data = Some
      [\<lparr>status = ''success'', jobs_fetched = Some 10, jobs_created = Some 4,
        created_at = ''2024-01-01T00:00:00Z''\<rparr>,
       \<lparr>status = ''failed'', jobs_fetched = Some 3, jobs_created = None,
        created_at = ''2024-06-01T00:00:00Z''\<rparr>],
      error = None\<rparr>)
   = Inr \<lparr>totalSyncs = 2, successfulSyncs = 1, failedSyncs = 1,
          totalJobsFetched = 13, totalJobsCreated = 4,
          lastSyncDate = Some ''2024-01-01T00:00:00Z''\<rparr>"
  by (simp add: getSyncStats_def or_zero_def)

text \<open>
  C9.  \<open>triggerManualSync\<close> and \<open>testApifyConnection\<close> never throw.  Whatever the remote
  calls do, each returns a result; the result of \<open>triggerManualSync\<close> reports success
  exactly when the configuration was found, is active and the remote function was invoked
  without an error, and reports the failure with its message when the configuration is
  missing or inactive; the result of \<open>testApifyConnection\<close> reports success exactly when
  the request returned a response that is \<open>ok\<close>.
\<close>

theorem sync_and_connection_never_throw:
  "(\<exists>r. triggerManualSync store invoke configId = Inr r
        \<and> (success r \<longleftrightarrow>
             (\<exists>c response. getConfigById (store configId) = Inr (Some c) \<and> is_active c
                \<and> invoke ''apify-sync-jobs'' configId = Inr response
                \<and> error response = None)))
   \<and> (getConfigById (store configId) = Inr None \<longrightarrow>
        triggerManualSync store invoke configId
          = Inr \<lparr>success = False, message = ''Configuration not found''\<rparr>)
   \<and> (\<forall>c. getConfigById (store configId) = Inr (Some c) \<and> \<not> is_active c \<longrightarrow>
        triggerManualSync store invoke configId
          = Inr \<lparr>success = False, message = ''Configuration is not active''\<rparr>)
   \<and> (\<exists>r. testApifyConnection fetch apiToken actorId = Inr r
        \<and> (success r \<longleftrightarrow>
             (\<exists>response. fetch (''https://api.apify.com/v2/acts/'' @ actorId)
                                 (''Bearer '' @ apiToken) = Inr response \<and> ok response)))"
  by (auto simp: triggerManualSync_def triggerManualSync_try_def testApifyConnection_def
        testApifyConnection_try_def split: sum.splits option.splits thrown.splits)

theorem sync_and_connection_never_throw_witness:
  "getConfigById ((\<lambda>i. Inr \<lparr>data = None, error = None\<rparr>) ''c1''
      :: thrown + JobFetchConfig PostgrestResponse) = Inr None
   \<and> triggerManualSync
        (\<lambda>i. Inr \<lparr>data = None, error = None\<rparr>
           :: thrown + JobFetchConfig PostgrestResponse)
        (\<lambda>n b. Inl Thrown_value :: thrown + unit PostgrestResponse) ''c1''
      = Inr \<lparr>success = False, message = ''Configuration not found''\<rparr>"
proof -
  have h: "getConfigById ((\<lambda>i. Inr \<lparr>data = None, error = None\<rparr>) ''c1''
      :: thrown + JobFetchConfig PostgrestResponse) = Inr None"
    by (simp add: getConfigById_def)
  show ?thesis
    using h sync_and_connection_never_throw
      [of "\<lambda>i. Inr \<lparr>data = None, error = None\<rparr>" "\<lambda>n b. Inl Thrown_value" "''c1''"
          "\<lambda>u a. Inl Thrown_value" "''t''" "''a''"]
    by blast
qed

end
